theory Spec2Isabelle
  imports Complex_Main
begin

section \<open>The airspace file parser of XCSoar (src/Airspace/AirspaceParser.cpp)\<close>

text \<open>
  The parser reads airspace files of two dialects (OpenAir, TNP) line by line into a
  pending record (\<open>TempAirspaceType\<close>) and hands finished airspaces to the airspace
  database. This theory embeds the functions of \<open>AirspaceParser.cpp\<close>.

  Conventions of the embedding:
  \<^item> a C string is a \<open>string\<close> (the characters before the terminating NUL); a pointer into
    it is either the remaining suffix or, where the code moves the pointer without
    looking, an offset into the text. A read beyond the terminating NUL is undefined
    behaviour in C++ and is the result \<open>Inl OutOfBounds\<close> here;
  \<open>Inl NoReturn\<close> is a loop that does not end;
  \<^item> \<open>fixed\<close> and \<open>double\<close> values are exact rationals, an \<open>Angle\<close> is its value in
    degrees: rounding is not modelled;
  \<^item> what the file uses from headers that are not part of the sources at hand (unit
    conversion, great-circle geometry) is a parameter of the functions.
\<close>

subsection \<open>Characters and C strings\<close>

datatype fault = OutOfBounds | NoReturn

definition NUL :: char where
  "NUL = CHR 0x00"

text \<open>\<open>Text[i]\<close> for a NUL-terminated string: the terminator is readable, nothing after it.\<close>

definition char_at :: "string \<Rightarrow> nat \<Rightarrow> char option" where
  "char_at Text i =
     (if i < length Text then Some (Text ! i)
      else if i = length Text then Some NUL
      else None)"

text \<open>\<open>*p\<close> where \<open>p\<close> is known to be inside the string or at its terminator.\<close>

definition peek :: "string \<Rightarrow> nat \<Rightarrow> char" where
  "peek Text i = (if i < length Text then Text ! i else NUL)"

definition is_digit :: "char \<Rightarrow> bool" where
  "is_digit c = (c \<in> set ''0123456789'')"

definition digit_val :: "char \<Rightarrow> nat" where
  "digit_val c = (of_char c :: nat) - 48"

definition is_space :: "char \<Rightarrow> bool" where
  "is_space c = (c \<in> set [CHR '' '', CHR 0x09, CHR 0x0A, CHR 0x0B, CHR 0x0C, CHR 0x0D])"

definition to_upper :: "char \<Rightarrow> char" where
  "to_upper c =
     (case map_of (zip ''abcdefghijklmnopqrstuvwxyz'' ''ABCDEFGHIJKLMNOPQRSTUVWXYZ'') c of
        Some u \<Rightarrow> u
      | None \<Rightarrow> c)"

text \<open>\<open>_tcsicmp(a, b) == 0\<close>: equal up to the case of ASCII letters.\<close>

definition tcsicmp_eq :: "string \<Rightarrow> string \<Rightarrow> bool" where
  "tcsicmp_eq a b = (map to_upper a = map to_upper b)"

text \<open>\<open>_tcsnicmp(p, pat, strlen(pat)) == 0\<close> for the suffix \<open>p\<close>.\<close>

definition tcsnicmp_eq :: "string \<Rightarrow> string \<Rightarrow> bool" where
  "tcsnicmp_eq p pat = (map to_upper (take (length pat) p) = map to_upper pat)"

text \<open>
  \<open>string_after_prefix\<close> and \<open>string_after_prefix_ci\<close> of Util/StringUtil.hpp: the rest of
  the string behind the prefix, or NULL (\<open>None\<close>) when the string does not start with it.
\<close>

definition string_after_prefix :: "string \<Rightarrow> string \<Rightarrow> string option" where
  "string_after_prefix s prefix =
     (if take (length prefix) s = prefix then Some (drop (length prefix) s) else None)"

definition string_after_prefix_ci :: "string \<Rightarrow> string \<Rightarrow> string option" where
  "string_after_prefix_ci s prefix =
     (if tcsnicmp_eq s prefix then Some (drop (length prefix) s) else None)"

text \<open>\<open>_tcschr(s, c)\<close> and \<open>_tcsstr(s, " ")\<close>: the suffix starting at the first occurrence.\<close>

fun tcschr :: "string \<Rightarrow> char \<Rightarrow> string option" where
  "tcschr [] c = None"
| "tcschr (x # xs) c = (if x = c then Some (x # xs) else tcschr xs c)"

subsection \<open>The C library's number scanners\<close>

fun scan_digits :: "nat \<Rightarrow> string \<Rightarrow> nat \<times> string" where
  "scan_digits acc [] = (acc, [])"
| "scan_digits acc (c # cs) =
     (if is_digit c then scan_digits (10 * acc + digit_val c) cs else (acc, c # cs))"

text \<open>An optional sign: whether it is a minus, and the rest.\<close>

fun scan_sign :: "string \<Rightarrow> bool \<times> string" where
  "scan_sign [] = (False, [])"
| "scan_sign (c # cs) =
     (if c = CHR ''-'' then (True, cs)
      else if c = CHR ''+'' then (False, cs)
      else (False, c # cs))"

text \<open>
  The exponent part of a decimal floating constant: \<open>e\<close> or \<open>E\<close>, an optional sign and at
  least one digit; anything else is not an exponent and nothing is consumed.
\<close>

definition scan_exponent :: "string \<Rightarrow> int \<times> string" where
  "scan_exponent s =
     (case s of
        [] \<Rightarrow> (0, s)
      | c # cs \<Rightarrow>
          if c = CHR ''e'' \<or> c = CHR ''E'' then
            (let (neg, ds) = scan_sign cs;
                 (e, rest) = scan_digits 0 ds
             in if length rest = length ds then (0, s)
                else (if neg then - int e else int e, rest))
          else (0, s))"

definition pow10 :: "int \<Rightarrow> rat" where
  "pow10 e = (if 0 \<le> e then 10 ^ nat e else 1 / 10 ^ nat (- e))"

text \<open>
  \<open>_tcstod(s, &endptr)\<close> on decimal input: white space, an optional sign, digits with an
  optional fraction, an optional exponent. The result is the value and \<open>endptr\<close> (as the
  remaining suffix); when no number is found the value is 0 and \<open>endptr\<close> is \<open>s\<close> itself.
  The hexadecimal, infinity and NaN forms of C99 are not modelled.
\<close>

definition tcstod :: "string \<Rightarrow> rat \<times> string" where
  "tcstod s =
     (let (neg, s2) = scan_sign (dropWhile is_space s);
          (ip, s3) = scan_digits 0 s2;
          idigits = length s2 - length s3;
          (fp, fdigits, s4) =
            (case s3 of
               [] \<Rightarrow> (0, 0, s3)
             | c # cs \<Rightarrow>
                 if c = CHR ''.'' then
                   (let (f, r) = scan_digits 0 cs in (f, length cs - length r, r))
                 else (0, 0, s3))
      in if idigits + fdigits = 0 then (0, s)
         else
           (let (e, s5) = scan_exponent s4;
                m = (of_nat ip + of_nat fp / 10 ^ fdigits) * pow10 e
            in (if neg then - m else m, s5)))"

text \<open>
  \<open>long\<close> has 32 bits on the Windows targets of the program; \<open>_tcstol\<close> saturates there.
\<close>

definition LONG_MAX :: int where
  "LONG_MAX = 2147483647"

definition LONG_MIN :: int where
  "LONG_MIN = - 2147483648"

text \<open>\<open>_tcstol(s, &endptr, 10)\<close>: white space, an optional sign, decimal digits.\<close>

definition tcstol :: "string \<Rightarrow> int \<times> string" where
  "tcstol s =
     (let (neg, s2) = scan_sign (dropWhile is_space s);
          (n, s3) = scan_digits 0 s2
      in if length s3 = length s2 then (0, s)
         else
           (let v = (if neg then - int n else int n)
            in (max LONG_MIN (min LONG_MAX v), s3)))"

subsection \<open>Units\<close>

text \<open>
  The unit conversions of Units/Units.hpp that the parser calls, as parameters:
  \<open>Units::ToSysUnit(x, unFeet)\<close>, \<open>Units::ToSysUnit(x, unNauticalMiles)\<close> and
  \<open>Units::ToUserUnit(x, unFlightLevel)\<close>.
\<close>

record units =
  FeetToSys :: "rat \<Rightarrow> rat"
  NauticalMilesToSys :: "rat \<Rightarrow> rat"
  SysToFlightLevel :: "rat \<Rightarrow> rat"

text \<open>
  Modelled from the spec: the unit conversion service (Units/Units.hpp) is not among the
  sources; the spec names a feet to system-unit conversion, nautical miles for radii and
  flight levels in hundreds of feet. This table takes metres as the system unit, with the
  international foot and nautical mile. It serves to evaluate the parser on examples.
\<close>

definition units_si :: units where
  "units_si =
     \<lparr> FeetToSys = (\<lambda>x. x * 381 / 1250),
       NauticalMilesToSys = (\<lambda>x. x * 1852),
       SysToFlightLevel = (\<lambda>x. x * 1250 / 381 / 100) \<rparr>"

subsection \<open>Altitudes: ReadAltitude\<close>

datatype AltType = UNDEFINED | MSL | AGL | FL

record AirspaceAltitude =
  altitude :: rat
  flight_level :: rat
  altitude_above_terrain :: rat
  type :: AltType

text \<open>The default constructor of \<open>AirspaceAltitude\<close>, also the start of \<open>ReadAltitude\<close>.\<close>

definition AirspaceAltitude_default :: AirspaceAltitude where
  "AirspaceAltitude_default =
     \<lparr> altitude = 0, flight_level = 0, altitude_above_terrain = 0, type = UNDEFINED \<rparr>"

text \<open>\<open>while (*p == ' ') ++p;\<close> as an offset into the text.\<close>

function skip_spaces :: "string \<Rightarrow> nat \<Rightarrow> nat" where
  "skip_spaces Text p =
     (if p < length Text \<and> Text ! p = CHR '' '' then skip_spaces Text (p + 1) else p)"
  by pat_completeness auto
termination
  by (relation "measure (\<lambda>(Text, p). length Text - p)") auto

text \<open>\<open>_tcstod(p, &endptr)\<close> with \<open>p\<close> and \<open>endptr\<close> as offsets into the text.\<close>

definition tcstod_at :: "string \<Rightarrow> nat \<Rightarrow> rat \<times> nat" where
  "tcstod_at Text p =
     (let (d, rest) = tcstod (drop p Text) in (d, length Text - length rest))"

text \<open>
  The body of the \<open>for\<close> loop of \<open>ReadAltitude\<close>, entered with \<open>*p\<close> not NUL: it skips
  spaces, takes the first branch of the chain that matches and moves \<open>p\<close> behind the
  token. The state is \<open>*Alt\<close> and \<open>fHasUnit\<close>; the result is the new state and the new
  \<open>p\<close>, before the \<open>++p\<close> of the loop header.
\<close>

definition ReadAltitude_token ::
  "units \<Rightarrow> string \<Rightarrow> nat \<Rightarrow> AirspaceAltitude \<times> bool \<Rightarrow> (AirspaceAltitude \<times> bool) \<times> nat" where
  "ReadAltitude_token u Text p0 st =
     (let Alt = fst st; fHasUnit = snd st;
          p = skip_spaces Text p0;
          c = peek Text p;
          here = drop p Text
      in
      if is_digit c then
        (let (d, endptr) = tcstod_at Text p
         in ((if type Alt = FL then Alt\<lparr>flight_level := d\<rparr>
              else if type Alt = AGL then Alt\<lparr>altitude_above_terrain := d\<rparr>
              else Alt\<lparr>altitude := d\<rparr>, fHasUnit), endptr))
      else if tcsnicmp_eq here ''GND'' then
        (if altitude Alt > 0 then
           ((Alt\<lparr>type := AGL, altitude_above_terrain := altitude Alt, altitude := 0\<rparr>,
             fHasUnit), p + 3)
         else
           ((Alt\<lparr>type := AGL, flight_level := 0, altitude := 0,
                 altitude_above_terrain := - 1\<rparr>, True), p + 3))
      else if tcsnicmp_eq here ''SFC'' then
        ((Alt\<lparr>type := AGL, flight_level := 0, altitude := 0,
              altitude_above_terrain := - 1\<rparr>, True), p + 3)
      else if tcsnicmp_eq here ''FL'' then
        ((Alt\<lparr>type := FL\<rparr>, True), p + 2)
      else if c = CHR ''F'' \<or> c = CHR ''f'' then
        ((Alt\<lparr>altitude := FeetToSys u (altitude Alt)\<rparr>, True),
         (if peek Text (p + 1) = CHR ''T'' \<or> peek Text (p + 1) = CHR ''t''
          then p + 2 else p + 1))
      else if tcsnicmp_eq here ''MSL'' then
        ((Alt\<lparr>type := MSL\<rparr>, fHasUnit), p + 3)
      else if c = CHR ''M'' \<or> c = CHR ''m'' then
        ((Alt, True), p + 1)
      else if tcsnicmp_eq here ''AGL'' then
        ((Alt\<lparr>type := AGL, altitude_above_terrain := altitude Alt, altitude := 0\<rparr>,
          fHasUnit), p + 3)
      else if tcsnicmp_eq here ''STD'' then
        ((Alt\<lparr>type := FL, flight_level := SysToFlightLevel u (altitude Alt)\<rparr>,
          fHasUnit), p + 3)
      else if tcsnicmp_eq here ''UNL'' then
        ((Alt\<lparr>type := MSL, altitude_above_terrain := - 1, altitude := 50000\<rparr>,
          fHasUnit), p + 3)
      else ((Alt, fHasUnit), p))"

lemma scan_digits_length: "length (snd (scan_digits acc s)) \<le> length s"
  by (induction s arbitrary: acc) (auto intro: le_SucI)

lemma scan_sign_length: "length (snd (scan_sign s)) \<le> length s"
  by (cases s) auto

lemma scan_exponent_length: "length (snd (scan_exponent s)) \<le> length s"
proof (cases s)
  case Nil
  then show ?thesis by (simp add: scan_exponent_def)
next
  case (Cons c cs)
  have a: "length (snd (scan_sign cs)) \<le> length cs"
    by (rule scan_sign_length)
  have b: "length (snd (scan_digits 0 (snd (scan_sign cs)))) \<le> length (snd (scan_sign cs))"
    by (rule scan_digits_length)
  from a b Cons show ?thesis
    by (auto simp: scan_exponent_def Let_def split: prod.splits)
qed

lemma dropWhile_length: "length (dropWhile P s) \<le> length s"
  by (induction s) auto

lemma tcstod_length: "length (snd (tcstod s)) \<le> length s"
proof -
  obtain neg s2 where s2: "scan_sign (dropWhile is_space s) = (neg, s2)"
    by (cases "scan_sign (dropWhile is_space s)")
  obtain ip s3 where s3: "scan_digits 0 s2 = (ip, s3)"
    by (cases "scan_digits 0 s2")
  have l2: "length s2 \<le> length s"
    using scan_sign_length [of "dropWhile is_space s"] dropWhile_length [of is_space s] s2
    by simp
  have l3: "length s3 \<le> length s2"
    using scan_digits_length [of 0 s2] s3 by simp
  show ?thesis
  proof (cases s3)
    case Nil
    with s2 s3 l2 l3 show ?thesis
      by (auto simp: tcstod_def Let_def scan_exponent_def split: prod.splits)
  next
    case (Cons c cs)
    show ?thesis
    proof (cases "c = CHR ''.''")
      case True
      obtain f r where fr: "scan_digits 0 cs = (f, r)"
        by (cases "scan_digits 0 cs")
      have lr: "length r \<le> length cs"
        using scan_digits_length [of 0 cs] fr by simp
      have le: "length (snd (scan_exponent r)) \<le> length r"
        by (rule scan_exponent_length)
      from s2 s3 Cons True fr l2 l3 lr le show ?thesis
        by (auto simp: tcstod_def Let_def split: prod.splits)
    next
      case False
      have le: "length (snd (scan_exponent s3)) \<le> length s3"
        by (rule scan_exponent_length)
      from s2 s3 Cons False l2 l3 le show ?thesis
        by (auto simp: tcstod_def Let_def split: prod.splits)
    qed
  qed
qed

lemma skip_spaces_ge: "p \<le> skip_spaces Text p"
proof (induction Text p rule: skip_spaces.induct)
  case (1 Text p)
  show ?case
  proof (cases "p < length Text \<and> Text ! p = CHR '' ''")
    case True
    with 1 have "p + 1 \<le> skip_spaces Text (p + 1)" by simp
    moreover from True have "skip_spaces Text p = skip_spaces Text (p + 1)" by simp
    ultimately show ?thesis by simp
  next
    case False
    then show ?thesis by simp
  qed
qed

lemma skip_spaces_le: "p \<le> length Text \<Longrightarrow> skip_spaces Text p \<le> length Text"
proof (induction Text p rule: skip_spaces.induct)
  case (1 Text p)
  show ?case
  proof (cases "p < length Text \<and> Text ! p = CHR '' ''")
    case True
    with 1 have "skip_spaces Text (p + 1) \<le> length Text" by simp
    moreover from True have "skip_spaces Text p = skip_spaces Text (p + 1)" by simp
    ultimately show ?thesis by simp
  next
    case False
    with 1 show ?thesis by simp
  qed
qed

declare skip_spaces.simps [simp del]

lemma tcstod_at_ge: "p \<le> length Text \<Longrightarrow> p \<le> snd (tcstod_at Text p)"
proof -
  assume p: "p \<le> length Text"
  have "length (snd (tcstod (drop p Text))) \<le> length Text - p"
    using tcstod_length [of "drop p Text"] by simp
  with p show ?thesis
    by (auto simp: tcstod_at_def split: prod.splits)
qed

lemma ReadAltitude_token_ge:
  "p \<le> length Text \<Longrightarrow> p \<le> snd (ReadAltitude_token u Text p st)"
proof -
  assume p: "p \<le> length Text"
  let ?q = "skip_spaces Text p"
  have q: "p \<le> ?q" by (rule skip_spaces_ge)
  have "?q \<le> length Text" using p by (rule skip_spaces_le)
  then have "?q \<le> snd (tcstod_at Text ?q)" by (rule tcstod_at_ge)
  with q have t: "p \<le> snd (tcstod_at Text ?q)" by simp
  from q t show ?thesis
    by (auto simp: ReadAltitude_token_def Let_def split: prod.splits)
qed

text \<open>
  The \<open>for\<close> loop of \<open>ReadAltitude\<close>: \<open>for (p = Text; *p != '\0'; ++p) body\<close>. The loop
  condition reads \<open>*p\<close> wherever the body and the \<open>++p\<close> have left \<open>p\<close>.
\<close>

function ReadAltitude_scan ::
  "units \<Rightarrow> string \<Rightarrow> nat \<Rightarrow> AirspaceAltitude \<times> bool \<Rightarrow> fault + (AirspaceAltitude \<times> bool)" where
  "ReadAltitude_scan u Text p st =
     (case char_at Text p of
        None \<Rightarrow> Inl OutOfBounds
      | Some c \<Rightarrow>
          if c = NUL then Inr st
          else ReadAltitude_scan u Text (snd (ReadAltitude_token u Text p st) + 1)
                 (fst (ReadAltitude_token u Text p st)))"
  by pat_completeness auto
termination
proof (relation "measure (\<lambda>(u, Text, p, st). length Text + 1 - p)")
  show "wf (measure (\<lambda>(u, Text, p, st). length Text + 1 - p))" by simp
next
  fix u :: units and Text :: string and p :: nat and st :: "AirspaceAltitude \<times> bool" and c :: char
  assume c: "char_at Text p = Some c" and "c \<noteq> NUL"
  then have p: "p < length Text"
    by (auto simp: char_at_def split: if_splits)
  then have "p \<le> snd (ReadAltitude_token u Text p st)"
    by (intro ReadAltitude_token_ge) simp
  with p show "((u, Text, snd (ReadAltitude_token u Text p st) + 1,
                 fst (ReadAltitude_token u Text p st)), (u, Text, p, st))
               \<in> measure (\<lambda>(u, Text, p, st). length Text + 1 - p)"
    by simp
qed

declare ReadAltitude_scan.simps [simp del]

definition ReadAltitude :: "units \<Rightarrow> string \<Rightarrow> fault + AirspaceAltitude" where
  "ReadAltitude u Text =
     (case ReadAltitude_scan u Text 0 (AirspaceAltitude_default, False) of
        Inl f \<Rightarrow> Inl f
      | Inr (Alt, fHasUnit) \<Rightarrow>
          (let Alt1 =
                 (if \<not> fHasUnit \<and> type Alt \<noteq> FL then
                    Alt\<lparr>altitude := FeetToSys u (altitude Alt),
                        altitude_above_terrain := FeetToSys u (altitude_above_terrain Alt)\<rparr>
                  else Alt)
           in Inr (if type Alt1 = UNDEFINED then Alt1\<lparr>type := MSL\<rparr> else Alt1)))"

subsection \<open>Points and angles\<close>

record GeoPoint =
  Latitude :: rat
  Longitude :: rat

text \<open>
  Modelled from the spec: the class \<open>Angle\<close> (Math/Angle.hpp) is not among the sources.
  \<open>as_bearing\<close> brings an angle into [0, 360), \<open>magnitude_degrees\<close> is its absolute
  value in degrees, \<open>Angle::dms\<close> adds degrees, minutes and seconds.
\<close>

definition as_bearing :: "rat \<Rightarrow> rat" where
  "as_bearing x = x - 360 * of_int \<lfloor>x / 360\<rfloor>"

definition magnitude_degrees :: "rat \<Rightarrow> rat" where
  "magnitude_degrees x = \<bar>x\<bar>"

definition dms :: "rat \<Rightarrow> rat \<Rightarrow> rat \<Rightarrow> rat" where
  "dms d m s = d + m / 60 + s / 3600"

text \<open>
  Modelled from the spec: \<open>GeoPoint::normalize\<close> (GeoPoint.hpp) is not among the sources;
  the spec has the longitude normalised into [-180, 180).
\<close>

definition normalize :: "GeoPoint \<Rightarrow> GeoPoint" where
  "normalize pt =
     pt\<lparr>Longitude := Longitude pt - 360 * of_int \<lfloor>(Longitude pt + 180) / 360\<rfloor>\<rparr>"

text \<open>What a local \<open>GeoPoint\<close> holds before a parser has written it (never read).\<close>

definition GeoPoint_blank :: GeoPoint where
  "GeoPoint_blank = \<lparr> Latitude = 0, Longitude = 0 \<rparr>"

text \<open>
  The great-circle geometry of Math/Earth.hpp and GeoPoint.hpp, as parameters:
  \<open>a.distance_bearing(b)\<close> (distance, then bearing), \<open>Bearing(a, b)\<close> and
  \<open>FindLatitudeLongitude(a, bearing, distance)\<close>.
\<close>

record geodesy =
  distance_bearing :: "GeoPoint \<Rightarrow> GeoPoint \<Rightarrow> rat \<times> rat"
  Bearing :: "GeoPoint \<Rightarrow> GeoPoint \<Rightarrow> rat"
  FindLatitudeLongitude :: "GeoPoint \<Rightarrow> rat \<Rightarrow> rat \<Rightarrow> GeoPoint"

subsection \<open>Coordinates: ReadCoords\<close>

text \<open>\<open>*Stop\<close> for a pointer held as the remaining suffix.\<close>

definition deref :: "string \<Rightarrow> char" where
  "deref s = (case s of [] \<Rightarrow> NUL | c # cs \<Rightarrow> c)"

text \<open>\<open>if (*Stop == ' ') Stop++;\<close>\<close>

definition skip_one_space :: "string \<Rightarrow> string" where
  "skip_one_space Stop = (if deref Stop = CHR '' '' then tl Stop else Stop)"

text \<open>
  The block \<open>if (*Stop == ':') { ... }\<close> of \<open>ReadCoords\<close>, which the function has once
  for each axis: minutes and seconds behind colons. \<open>None\<close> is its \<open>return false\<close>.
\<close>

definition ReadCoords_min_sec :: "rat \<Rightarrow> string \<Rightarrow> (rat \<times> string) option" where
  "ReadCoords_min_sec deg Stop =
     (if deref Stop = CHR '':'' then
        (let (min, Stop2) = tcstod (tl Stop)
         in if deref Stop2 = NUL then None
            else if deref Stop2 = CHR '':'' then
              (let (sec, Stop3) = tcstod (tl Stop2)
               in if deref Stop3 = NUL then None
                  else Some (deg + min / 60 + sec / 3600, Stop3))
            else Some (deg + min / 60, Stop2))
      else Some (deg, Stop))"

text \<open>
  The second half of \<open>ReadCoords\<close>, from the scan of the longitude on. \<open>Text\<close> is the
  start of the whole input: the code compares \<open>Text == Stop\<close> here as well.
\<close>

definition ReadCoords_longitude :: "string \<Rightarrow> string \<Rightarrow> GeoPoint \<Rightarrow> bool \<times> GeoPoint" where
  "ReadCoords_longitude Text Stop0 point =
     (let (deg, Stop) = tcstod Stop0
      in if length Text = length Stop \<or> deref Stop = NUL then (False, point)
         else
           (case ReadCoords_min_sec deg Stop of
              None \<Rightarrow> (False, point)
            | Some (deg2, Stop2) \<Rightarrow>
                (let point2 = point\<lparr>Longitude := deg2\<rparr>;
                     Stop3 = skip_one_space Stop2
                 in if deref Stop3 = NUL then (False, point2)
                    else
                      (let point3 =
                             (if deref Stop3 = CHR ''W'' \<or> deref Stop3 = CHR ''w''
                              then point2\<lparr>Longitude := - Longitude point2\<rparr>
                              else point2)
                       in (True, normalize point3)))))"

text \<open>
  \<open>ReadCoords(Text, point)\<close>: the result and what \<open>point\<close> holds afterwards (the
  latitude is written before the longitude is scanned).
\<close>

definition ReadCoords :: "string \<Rightarrow> GeoPoint \<Rightarrow> bool \<times> GeoPoint" where
  "ReadCoords Text point =
     (let (deg, Stop) = tcstod Text
      in if length Text = length Stop \<or> deref Stop = NUL then (False, point)
         else
           (case ReadCoords_min_sec deg Stop of
              None \<Rightarrow> (False, point)
            | Some (deg2, Stop2) \<Rightarrow>
                (let point2 = point\<lparr>Latitude := deg2\<rparr>;
                     Stop3 = skip_one_space Stop2
                 in if deref Stop3 = NUL then (False, point2)
                    else
                      (let point3 =
                             (if deref Stop3 = CHR ''S'' \<or> deref Stop3 = CHR ''s''
                              then point2\<lparr>Latitude := - Latitude point2\<rparr>
                              else point2);
                           Stop4 = tl Stop3
                       in if deref Stop4 = NUL then (False, point3)
                          else ReadCoords_longitude Text Stop4 point3))))"

subsection \<open>The pending record and the airspace database\<close>

datatype AirspaceClass =
  OTHER | RESTRICT | PROHIBITED | DANGER | CLASSA | CLASSB | CLASSC | CLASSD
  | NOGLIDER | CTR | WAVE | CLASSE | CLASSF | CLASSG | TMZ

text \<open>
  Modelled from the spec: \<open>AirspaceActivity\<close> is not among the sources; it holds which
  days an airspace is active, set to all days, the weekend or the weekdays.
\<close>

datatype AirspaceActivity = ALL_DAYS | WEEKEND | WEEKDAYS

record TempAirspaceType =
  Waiting :: bool
  Name :: string
  Radio :: string
  Type :: AirspaceClass
  Base :: AirspaceAltitude
  Top :: AirspaceAltitude
  days_of_operation :: AirspaceActivity
  points :: "GeoPoint list"
  Center :: GeoPoint
  Radius :: rat
  Rotation :: int

text \<open>\<open>TempAirspaceType::reset\<close>: the fields it assigns; Name, Base and Top are not among them.\<close>

definition reset :: "TempAirspaceType \<Rightarrow> TempAirspaceType" where
  "reset t =
     t\<lparr> days_of_operation := ALL_DAYS,
        Radio := [],
        Type := OTHER,
        points := [],
        Center := \<lparr> Latitude = 0, Longitude = 0 \<rparr>,
        Rotation := 1,
        Radius := 0,
        Waiting := True \<rparr>"

text \<open>The constructor: default-constructed members, then \<open>reset()\<close>.\<close>

definition TempAirspaceType_new :: TempAirspaceType where
  "TempAirspaceType_new =
     reset \<lparr> Waiting = True, Name = [], Radio = [], Type = OTHER,
             Base = AirspaceAltitude_default, Top = AirspaceAltitude_default,
             days_of_operation = ALL_DAYS, points = [], Center = GeoPoint_blank,
             Radius = 0, Rotation = 1 \<rparr>"

text \<open>What the database receives: the shape and the properties set on it.\<close>

datatype AirspaceShape = AirspacePolygon "GeoPoint list" | AirspaceCircle GeoPoint rat

record Airspace =
  as_shape :: AirspaceShape
  as_name :: string
  as_type :: AirspaceClass
  as_base :: AirspaceAltitude
  as_top :: AirspaceAltitude
  as_radio :: string
  as_days :: AirspaceActivity

type_synonym Airspaces = "Airspace list"

definition make_airspace :: "AirspaceShape \<Rightarrow> TempAirspaceType \<Rightarrow> Airspace" where
  "make_airspace sh t =
     \<lparr> as_shape = sh, as_name = Name t, as_type = Type t, as_base = Base t,
       as_top = Top t, as_radio = Radio t, as_days = days_of_operation t \<rparr>"

definition AddPolygon :: "TempAirspaceType \<Rightarrow> Airspaces \<Rightarrow> Airspaces" where
  "AddPolygon t airspace_database =
     airspace_database @ [make_airspace (AirspacePolygon (points t)) t]"

definition AddCircle :: "TempAirspaceType \<Rightarrow> Airspaces \<Rightarrow> Airspaces" where
  "AddCircle t airspace_database =
     airspace_database @ [make_airspace (AirspaceCircle (Center t) (Radius t)) t]"

subsection \<open>Arcs and sectors\<close>

text \<open>
  The \<open>while\<close> loop of \<open>AddArc\<close>: the bearing is stepped first, then the point at the new
  bearing is appended. Nothing in the loop bounds the number of rounds.
\<close>

partial_function (option) AddArc_loop ::
  "geodesy \<Rightarrow> GeoPoint \<Rightarrow> rat \<Rightarrow> rat \<Rightarrow> rat \<Rightarrow> rat \<Rightarrow> GeoPoint list \<Rightarrow> GeoPoint list option" where
  "AddArc_loop g center radius BearingStep EndBearing StartBearing pts =
     (if magnitude_degrees (EndBearing - StartBearing) > 15 / 2 then
        AddArc_loop g center radius BearingStep EndBearing
          (as_bearing (StartBearing + BearingStep))
          (pts @ [FindLatitudeLongitude g center (as_bearing (StartBearing + BearingStep)) radius])
      else Some pts)"

declare AddArc_loop.simps [code]

definition AddArc ::
  "geodesy \<Rightarrow> GeoPoint \<Rightarrow> GeoPoint \<Rightarrow> TempAirspaceType \<Rightarrow> fault + TempAirspaceType" where
  "AddArc g Start End temp_area =
     (let BearingStep = of_int (Rotation temp_area) * 5;
          v = distance_bearing g (Center temp_area) Start;
          StartBearing = snd v;
          radius = fst v;
          EndBearing = Bearing g (Center temp_area) End
      in case AddArc_loop g (Center temp_area) radius BearingStep EndBearing StartBearing
                (points temp_area @ [Start]) of
           None \<Rightarrow> Inl NoReturn
         | Some pts \<Rightarrow> Inr (temp_area\<lparr>points := pts @ [End]\<rparr>))"

text \<open>The loop of \<open>CalculateSector\<close>: the point at the current bearing, then the step.\<close>

partial_function (option) CalculateSector_loop ::
  "geodesy \<Rightarrow> GeoPoint \<Rightarrow> rat \<Rightarrow> rat \<Rightarrow> rat \<Rightarrow> rat \<Rightarrow> GeoPoint list \<Rightarrow> GeoPoint list option" where
  "CalculateSector_loop g center radius BearingStep EndBearing StartBearing pts =
     (if magnitude_degrees (EndBearing - StartBearing) > 15 / 2 then
        CalculateSector_loop g center radius BearingStep EndBearing
          (as_bearing (StartBearing + BearingStep))
          (pts @ [FindLatitudeLongitude g center StartBearing radius])
      else Some pts)"

declare CalculateSector_loop.simps [code]

text \<open>
  \<open>CalculateSector(Text, temp_area)\<close>: three numbers behind \<open>Text[2]\<close>, each scan starting one
  character behind the end of the one before, whatever that character is.
\<close>

definition CalculateSector ::
  "units \<Rightarrow> geodesy \<Rightarrow> string \<Rightarrow> TempAirspaceType \<Rightarrow> fault + TempAirspaceType" where
  "CalculateSector u g Text temp_area =
     (let BearingStep = of_int (Rotation temp_area) * 5;
          (r, Stop) = tcstod (drop 2 Text);
          radius = NauticalMilesToSys u r
      in if Stop = [] then Inl OutOfBounds
         else
           (let (sb, Stop2) = tcstod (tl Stop);
                StartBearing = as_bearing sb
            in if Stop2 = [] then Inl OutOfBounds
               else
                 (let (eb, Stop3) = tcstod (tl Stop2);
                      EndBearing = as_bearing eb
                  in case CalculateSector_loop g (Center temp_area) radius BearingStep
                            EndBearing StartBearing (points temp_area) of
                       None \<Rightarrow> Inl NoReturn
                     | Some pts \<Rightarrow>
                         Inr (temp_area\<lparr>points :=
                                pts @ [FindLatitudeLongitude g (Center temp_area)
                                         EndBearing radius]\<rparr>))))"

text \<open>
  \<open>CalculateArc(Text, temp_area)\<close> has no result: where a coordinate does not parse or the
  comma is missing it returns with \<open>temp_area\<close> as it was. \<open>&Text[3]\<close> lies behind the
  terminator when the line is just \<open>DB\<close>.
\<close>

definition CalculateArc ::
  "geodesy \<Rightarrow> string \<Rightarrow> TempAirspaceType \<Rightarrow> fault + TempAirspaceType" where
  "CalculateArc g Text temp_area =
     (if length Text < 3 then Inl OutOfBounds
      else
        (let (ok1, Start) = ReadCoords (drop 3 Text) GeoPoint_blank
         in if \<not> ok1 then Inr temp_area
            else
              (case tcschr Text (CHR '','') of
                 None \<Rightarrow> Inr temp_area
               | Some Comma \<Rightarrow>
                   (let (ok2, End) = ReadCoords (tl Comma) GeoPoint_blank
                    in if \<not> ok2 then Inr temp_area
                       else AddArc g Start End temp_area))))"

subsection \<open>The OpenAir dialect: ParseLine\<close>

definition airspace_class_strings :: "(string \<times> AirspaceClass) list" where
  "airspace_class_strings =
     [(''R'', RESTRICT), (''Q'', DANGER), (''P'', PROHIBITED), (''CTR'', CTR),
      (''A'', CLASSA), (''B'', CLASSB), (''C'', CLASSC), (''D'', CLASSD),
      (''GP'', NOGLIDER), (''W'', WAVE), (''E'', CLASSE), (''F'', CLASSF),
      (''TMZ'', TMZ), (''G'', CLASSG)]"

fun ParseType_from :: "(string \<times> AirspaceClass) list \<Rightarrow> string \<Rightarrow> AirspaceClass" where
  "ParseType_from [] text = OTHER"
| "ParseType_from ((str, ty) # rest) text =
     (if string_after_prefix text str \<noteq> None then ty else ParseType_from rest text)"

definition ParseType :: "string \<Rightarrow> AirspaceClass" where
  "ParseType text = ParseType_from airspace_class_strings text"

text \<open>\<open>value_after_space\<close>: \<open>None\<close> is NULL, the malformed line.\<close>

definition value_after_space :: "string \<Rightarrow> string option" where
  "value_after_space p =
     (if p = [] then Some p
      else if deref p \<noteq> CHR '' '' then None
      else Some (tl p))"

text \<open>
  The result of a line parser: what it returns, the database and the pending record
  afterwards.
\<close>

type_synonym line_result = "fault + (bool \<times> Airspaces \<times> TempAirspaceType)"

text \<open>Running a step that has no result of its own; the line then returns true.\<close>

definition after_void :: "Airspaces \<Rightarrow> fault + TempAirspaceType \<Rightarrow> line_result" where
  "after_void db r = (case r of Inl f \<Rightarrow> Inl f | Inr t \<Rightarrow> Inr (True, db, t))"

text \<open>\<open>ReadAltitude(value, &temp_area.Base)\<close> and the same for Top.\<close>

definition read_Base :: "units \<Rightarrow> string \<Rightarrow> TempAirspaceType \<Rightarrow> fault + TempAirspaceType" where
  "read_Base u v t = (case ReadAltitude u v of Inl f \<Rightarrow> Inl f | Inr a \<Rightarrow> Inr (t\<lparr>Base := a\<rparr>))"

definition read_Top :: "units \<Rightarrow> string \<Rightarrow> TempAirspaceType \<Rightarrow> fault + TempAirspaceType" where
  "read_Top u v t = (case ReadAltitude u v of Inl f \<Rightarrow> Inl f | Inr a \<Rightarrow> Inr (t\<lparr>Top := a\<rparr>))"

text \<open>The cases of \<open>line[1]\<close> under \<open>case 'D'\<close>.\<close>

definition ParseLine_D ::
  "units \<Rightarrow> geodesy \<Rightarrow> Airspaces \<Rightarrow> string \<Rightarrow> TempAirspaceType \<Rightarrow> line_result" where
  "ParseLine_D u g db line temp_area =
     (let c1 = deref (tl line)
      in if c1 = CHR ''P'' \<or> c1 = CHR ''p'' then
           (case value_after_space (drop 2 line) of
              None \<Rightarrow> Inr (True, db, temp_area)
            | Some v \<Rightarrow>
                (let (ok, TempPoint) = ReadCoords v GeoPoint_blank
                 in if \<not> ok then Inr (False, db, temp_area)
                    else Inr (True, db, temp_area\<lparr>points := points temp_area @ [TempPoint]\<rparr>)))
         else if c1 = CHR ''C'' \<or> c1 = CHR ''c'' then
           (let t1 = temp_area\<lparr>Radius := NauticalMilesToSys u (fst (tcstod (drop 2 line)))\<rparr>
            in Inr (True, AddCircle t1 db, reset t1))
         else if c1 = CHR ''A'' \<or> c1 = CHR ''a'' then
           after_void db (CalculateSector u g line temp_area)
         else if c1 = CHR ''B'' \<or> c1 = CHR ''b'' then
           after_void db (CalculateArc g line temp_area)
         else Inr (True, db, temp_area))"

text \<open>\<open>case 'V'\<close>: the code looks at \<open>&line[2]\<close> without having looked at \<open>line[1]\<close>.\<close>

definition ParseLine_V :: "Airspaces \<Rightarrow> string \<Rightarrow> TempAirspaceType \<Rightarrow> line_result" where
  "ParseLine_V db line temp_area =
     (if length line < 2 then Inl OutOfBounds
      else if string_after_prefix_ci (drop 2 line) ''X='' \<noteq> None then
        (let (ok, c) = ReadCoords (drop 4 line) (Center temp_area)
         in Inr (ok, db, temp_area\<lparr>Center := c\<rparr>))
      else if string_after_prefix_ci (drop 2 line) ''D=-'' \<noteq> None then
        Inr (True, db, temp_area\<lparr>Rotation := - 1\<rparr>)
      else if string_after_prefix_ci (drop 2 line) ''D=+'' \<noteq> None then
        Inr (True, db, temp_area\<lparr>Rotation := 1\<rparr>)
      else Inr (True, db, temp_area))"

text \<open>The cases of \<open>line[1]\<close> under \<open>case 'A'\<close>.\<close>

definition ParseLine_A ::
  "units \<Rightarrow> Airspaces \<Rightarrow> string \<Rightarrow> TempAirspaceType \<Rightarrow> line_result" where
  "ParseLine_A u db line temp_area =
     (let c1 = deref (tl line)
      in if c1 = CHR ''C'' \<or> c1 = CHR ''c'' then
           (case value_after_space (drop 2 line) of
              None \<Rightarrow> Inr (True, db, temp_area)
            | Some v \<Rightarrow>
                Inr (True,
                     (if \<not> Waiting temp_area then AddPolygon temp_area db else db),
                     (reset temp_area)\<lparr>Type := ParseType v, Waiting := False\<rparr>))
         else if c1 = CHR ''N'' \<or> c1 = CHR ''n'' then
           (case value_after_space (drop 2 line) of
              None \<Rightarrow> Inr (True, db, temp_area)
            | Some v \<Rightarrow> Inr (True, db, temp_area\<lparr>Name := v\<rparr>))
         else if c1 = CHR ''L'' \<or> c1 = CHR ''l'' then
           (case value_after_space (drop 2 line) of
              None \<Rightarrow> Inr (True, db, temp_area)
            | Some v \<Rightarrow> after_void db (read_Base u v temp_area))
         else if c1 = CHR ''H'' \<or> c1 = CHR ''h'' then
           (case value_after_space (drop 2 line) of
              None \<Rightarrow> Inr (True, db, temp_area)
            | Some v \<Rightarrow> after_void db (read_Top u v temp_area))
         else if c1 = CHR ''R'' \<or> c1 = CHR ''r'' then
           (case value_after_space (drop 2 line) of
              None \<Rightarrow> Inr (True, db, temp_area)
            | Some v \<Rightarrow> Inr (True, db, temp_area\<lparr>Radio := v\<rparr>))
         else Inr (True, db, temp_area))"

definition ParseLine ::
  "units \<Rightarrow> geodesy \<Rightarrow> Airspaces \<Rightarrow> string \<Rightarrow> TempAirspaceType \<Rightarrow> line_result" where
  "ParseLine u g airspace_database line temp_area =
     (let c0 = deref line
      in if c0 = CHR ''D'' \<or> c0 = CHR ''d'' then
           ParseLine_D u g airspace_database line temp_area
         else if c0 = CHR ''V'' \<or> c0 = CHR ''v'' then
           ParseLine_V airspace_database line temp_area
         else if c0 = CHR ''A'' \<or> c0 = CHR ''a'' then
           ParseLine_A u airspace_database line temp_area
         else Inr (True, airspace_database, temp_area))"

subsection \<open>The TNP dialect: ParseLineTNP\<close>

definition ParseClassTNP :: "string \<Rightarrow> AirspaceClass" where
  "ParseClassTNP text =
     (if deref text = CHR ''A'' then CLASSA
      else if deref text = CHR ''B'' then CLASSB
      else if deref text = CHR ''C'' then CLASSC
      else if deref text = CHR ''D'' then CLASSD
      else if deref text = CHR ''E'' then CLASSE
      else if deref text = CHR ''F'' then CLASSF
      else if deref text = CHR ''G'' then CLASSG
      else OTHER)"

definition ParseTypeTNP :: "string \<Rightarrow> AirspaceClass" where
  "ParseTypeTNP text =
     (if tcsicmp_eq text ''C'' \<or> tcsicmp_eq text ''CTA'' \<or> tcsicmp_eq text ''CTA''
         \<or> tcsicmp_eq text ''CTA/CTR'' then CTR
      else if tcsicmp_eq text ''R'' \<or> tcsicmp_eq text ''RESTRICTED'' then RESTRICT
      else if tcsicmp_eq text ''P'' \<or> tcsicmp_eq text ''PROHIBITED'' then RESTRICT
      else if tcsicmp_eq text ''D'' \<or> tcsicmp_eq text ''DANGER'' then RESTRICT
      else if tcsicmp_eq text ''G'' \<or> tcsicmp_eq text ''GSEC'' then WAVE
      else OTHER)"

text \<open>Integer division of C, which truncates towards zero.\<close>

definition cdiv :: "int \<Rightarrow> int \<Rightarrow> int" where
  "cdiv a b = sgn a * sgn b * (\<bar>a\<bar> div \<bar>b\<bar>)"

text \<open>
  The three assignments of \<open>ParseCoordsTNP\<close> that split the number read into degrees,
  minutes and seconds, and the angle made of them.
\<close>

definition split_dms :: "int \<Rightarrow> rat" where
  "split_dms sec0 =
     (let deg = \<bar>cdiv sec0 10000\<bar>;
          min = \<bar>cdiv (sec0 - deg * 10000) 100\<bar>;
          sec = sec0 - min * 100 - deg * 10000
      in dms (of_int deg) (of_int min) (of_int sec))"

text \<open>
  \<open>ParseCoordsTNP(Text, point)\<close>. Both scans start one character behind a character
  that may be the terminator: \<open>&Text[1]\<close> and \<open>&ptr[1]\<close>.
\<close>

definition ParseCoordsTNP :: "string \<Rightarrow> GeoPoint \<Rightarrow> fault + (bool \<times> GeoPoint)" where
  "ParseCoordsTNP Text point =
     (if Text = [] then Inl OutOfBounds
      else
        (let negative = (deref Text = CHR ''S'' \<or> deref Text = CHR ''s'');
             (sec0, ptr) = tcstol (tl Text);
             lat = split_dms sec0;
             point1 = point\<lparr>Latitude := (if negative then - lat else lat)\<rparr>;
             ptr1 = skip_one_space ptr;
             negative2 = (deref ptr1 = CHR ''W'' \<or> deref ptr1 = CHR ''w'')
         in if ptr1 = [] then Inl OutOfBounds
            else
              (let (sec1, ptr2) = tcstol (tl ptr1);
                   lon = split_dms sec1;
                   point2 = point1\<lparr>Longitude := (if negative2 then - lon else lon)\<rparr>
               in Inr (True, normalize point2))))"

text \<open>
  \<open>ParseArcTNP\<close>: the result of the function and the pending record afterwards (the
  centre is written before the later checks).
\<close>

definition ParseArcTNP ::
  "geodesy \<Rightarrow> string \<Rightarrow> TempAirspaceType \<Rightarrow> fault + (bool \<times> TempAirspaceType)" where
  "ParseArcTNP g Text temp_area =
     (if points temp_area = [] then Inr (False, temp_area)
      else
        (let from = last (points temp_area)
         in case tcschr Text (CHR '' '') of
              None \<Rightarrow> Inr (False, temp_area)
            | Some p1 \<Rightarrow>
                (case string_after_prefix_ci p1 '' CENTRE='' of
                   None \<Rightarrow> Inr (False, temp_area)
                 | Some p2 \<Rightarrow>
                     (case ParseCoordsTNP p2 (Center temp_area) of
                        Inl f \<Rightarrow> Inl f
                      | Inr (ok, c) \<Rightarrow>
                          (let t1 = temp_area\<lparr>Center := c\<rparr>
                           in case tcschr p2 (CHR '' '') of
                                None \<Rightarrow> Inr (False, t1)
                              | Some p3 \<Rightarrow>
                                  (case tcschr (tl p3) (CHR '' '') of
                                     None \<Rightarrow> Inr (False, t1)
                                   | Some p4 \<Rightarrow>
                                       (case string_after_prefix_ci p4 '' TO='' of
                                          None \<Rightarrow> Inr (False, t1)
                                        | Some p5 \<Rightarrow>
                                            (case ParseCoordsTNP p5 GeoPoint_blank of
                                               Inl f \<Rightarrow> Inl f
                                             | Inr (ok2, to) \<Rightarrow>
                                                 (case AddArc g from to t1 of
                                                    Inl f \<Rightarrow> Inl f
                                                  | Inr t2 \<Rightarrow> Inr (True, t2))))))))))"

definition ParseCircleTNP ::
  "units \<Rightarrow> string \<Rightarrow> TempAirspaceType \<Rightarrow> fault + (bool \<times> TempAirspaceType)" where
  "ParseCircleTNP u Text temp_area =
     (case string_after_prefix_ci Text ''RADIUS='' of
        None \<Rightarrow> Inr (False, temp_area)
      | Some p1 \<Rightarrow>
          (let t1 = temp_area\<lparr>Radius := NauticalMilesToSys u (fst (tcstod p1))\<rparr>
           in case tcschr p1 (CHR '' '') of
                None \<Rightarrow> Inr (False, t1)
              | Some p2 \<Rightarrow>
                  (case string_after_prefix_ci p2 '' CENTRE='' of
                     None \<Rightarrow> Inr (False, t1)
                   | Some p3 \<Rightarrow>
                       (case ParseCoordsTNP p3 (Center t1) of
                          Inl f \<Rightarrow> Inl f
                        | Inr (ok, c) \<Rightarrow> Inr (True, t1\<lparr>Center := c\<rparr>)))))"

text \<open>The result of a TNP line: as for OpenAir, with the \<open>ignore\<close> flag afterwards.\<close>

type_synonym tnp_result = "fault + (bool \<times> Airspaces \<times> TempAirspaceType \<times> bool)"

text \<open>The chain of directives of \<open>ParseLineTNP\<close> behind the \<open>INCLUDE=\<close> and \<open>ignore\<close> tests.\<close>

definition ParseLineTNP_directive ::
  "units \<Rightarrow> geodesy \<Rightarrow> Airspaces \<Rightarrow> string \<Rightarrow> TempAirspaceType \<Rightarrow> line_result" where
  "ParseLineTNP_directive u g db line temp_area =
     (case string_after_prefix_ci line ''POINT='' of
        Some parameter \<Rightarrow>
          (case ParseCoordsTNP parameter GeoPoint_blank of
             Inl f \<Rightarrow> Inl f
           | Inr (ok, TempPoint) \<Rightarrow>
               if \<not> ok then Inr (False, db, temp_area)
               else Inr (True, db, temp_area\<lparr>points := points temp_area @ [TempPoint]\<rparr>))
      | None \<Rightarrow>
     (case string_after_prefix_ci line ''CIRCLE '' of
        Some parameter \<Rightarrow>
          (case ParseCircleTNP u parameter temp_area of
             Inl f \<Rightarrow> Inl f
           | Inr (ok, t1) \<Rightarrow>
               if \<not> ok then Inr (False, db, t1)
               else Inr (True, AddCircle t1 db, t1))
      | None \<Rightarrow>
     (case string_after_prefix_ci line ''CLOCKWISE '' of
        Some parameter \<Rightarrow>
          (case ParseArcTNP g parameter (temp_area\<lparr>Rotation := 1\<rparr>) of
             Inl f \<Rightarrow> Inl f
           | Inr (ok, t1) \<Rightarrow> Inr (ok, db, t1))
      | None \<Rightarrow>
     (case string_after_prefix_ci line ''ANTI-CLOCKWISE '' of
        Some parameter \<Rightarrow>
          (case ParseArcTNP g parameter (temp_area\<lparr>Rotation := - 1\<rparr>) of
             Inl f \<Rightarrow> Inl f
           | Inr (ok, t1) \<Rightarrow> Inr (ok, db, t1))
      | None \<Rightarrow>
     (case string_after_prefix_ci line ''TITLE='' of
        Some parameter \<Rightarrow> Inr (True, db, temp_area\<lparr>Name := parameter\<rparr>)
      | None \<Rightarrow>
     (case string_after_prefix_ci line ''TYPE='' of
        Some parameter \<Rightarrow>
          Inr (True,
               (if \<not> Waiting temp_area then AddPolygon temp_area db else db),
               (reset temp_area)\<lparr>Type := ParseTypeTNP parameter, Waiting := False\<rparr>)
      | None \<Rightarrow>
     (case string_after_prefix_ci line ''CLASS='' of
        Some parameter \<Rightarrow>
          Inr (True, db,
               (if Type temp_area = OTHER then temp_area\<lparr>Type := ParseClassTNP parameter\<rparr>
                else temp_area))
      | None \<Rightarrow>
     (case string_after_prefix_ci line ''TOPS='' of
        Some parameter \<Rightarrow> after_void db (read_Top u parameter temp_area)
      | None \<Rightarrow>
     (case string_after_prefix_ci line ''BASE='' of
        Some parameter \<Rightarrow> after_void db (read_Base u parameter temp_area)
      | None \<Rightarrow>
     (case string_after_prefix_ci line ''RADIO='' of
        Some parameter \<Rightarrow> Inr (True, db, temp_area\<lparr>Radio := parameter\<rparr>)
      | None \<Rightarrow>
     (case string_after_prefix_ci line ''ACTIVE='' of
        Some parameter \<Rightarrow>
          Inr (True, db,
               (if tcsicmp_eq parameter ''WEEKEND'' then temp_area\<lparr>days_of_operation := WEEKEND\<rparr>
                else if tcsicmp_eq parameter ''WEEKDAY''
                  then temp_area\<lparr>days_of_operation := WEEKDAYS\<rparr>
                else if tcsicmp_eq parameter ''EVERYDAY''
                  then temp_area\<lparr>days_of_operation := ALL_DAYS\<rparr>
                else temp_area))
      | None \<Rightarrow> Inr (True, db, temp_area))))))))))))"

definition ParseLineTNP ::
  "units \<Rightarrow> geodesy \<Rightarrow> Airspaces \<Rightarrow> string \<Rightarrow> TempAirspaceType \<Rightarrow> bool \<Rightarrow> tnp_result" where
  "ParseLineTNP u g airspace_database line temp_area ignore =
     (case string_after_prefix_ci line ''INCLUDE='' of
        Some parameter \<Rightarrow>
          Inr (True, airspace_database, temp_area,
               (if tcsicmp_eq parameter ''YES'' then False
                else if tcsicmp_eq parameter ''NO'' then True
                else ignore))
      | None \<Rightarrow>
          if ignore then Inr (True, airspace_database, temp_area, ignore)
          else
            (case ParseLineTNP_directive u g airspace_database line temp_area of
               Inl f \<Rightarrow> Inl f
             | Inr (ok, db, t) \<Rightarrow> Inr (ok, db, t, ignore)))"

subsection \<open>The file driver: AirspaceParser::Parse\<close>

datatype AirspaceFileType = AFT_UNKNOWN | AFT_OPENAIR | AFT_TNP

definition DetectFileType :: "string \<Rightarrow> AirspaceFileType" where
  "DetectFileType line =
     (if string_after_prefix_ci line ''INCLUDE='' \<noteq> None
         \<or> string_after_prefix_ci line ''TYPE='' \<noteq> None then AFT_TNP
      else
        (case string_after_prefix_ci line ''AC'' of
           Some p \<Rightarrow> if p = [] \<or> deref p = CHR '' '' then AFT_OPENAIR else AFT_UNKNOWN
         | None \<Rightarrow> AFT_UNKNOWN))"

text \<open>The locals of \<open>Parse\<close> that live across lines, with the database.\<close>

record parse_state =
  airspaces :: Airspaces
  temp_area :: TempAirspaceType
  filetype :: AirspaceFileType
  ignore :: bool

text \<open>
  The line loop of \<open>Parse\<close>. The lines are those the reader delivers; \<open>warn\<close> is
  \<open>ShowParseWarning\<close>, the answer of the user to a line that failed. The result \<open>False\<close>
  is the \<open>return false\<close> inside the loop. The progress display is left out.
\<close>

fun Parse_lines ::
  "units \<Rightarrow> geodesy \<Rightarrow> (nat \<Rightarrow> string \<Rightarrow> bool) \<Rightarrow> nat \<Rightarrow> string list \<Rightarrow> parse_state
   \<Rightarrow> fault + (bool \<times> parse_state)" where
  "Parse_lines u g warn LineCount [] st = Inr (True, st)"
| "Parse_lines u g warn LineCount (raw # rest) st =
     (let line = takeWhile (\<lambda>c. c \<noteq> CHR ''*'') raw
      in if line = [] then Parse_lines u g warn (LineCount + 1) rest st
         else
           (let ft = (if filetype st = AFT_UNKNOWN then DetectFileType line else filetype st)
            in if ft = AFT_UNKNOWN then Parse_lines u g warn (LineCount + 1) rest st
               else if ft = AFT_OPENAIR then
                 (case ParseLine u g (airspaces st) line (temp_area st) of
                    Inl f \<Rightarrow> Inl f
                  | Inr (ok, db, t) \<Rightarrow>
                      if \<not> ok \<and> \<not> warn LineCount line
                      then Inr (False, st\<lparr>airspaces := db, temp_area := t, filetype := ft\<rparr>)
                      else Parse_lines u g warn (LineCount + 1) rest
                             (st\<lparr>airspaces := db, temp_area := t, filetype := ft\<rparr>))
               else
                 (case ParseLineTNP u g (airspaces st) line (temp_area st) (ignore st) of
                    Inl f \<Rightarrow> Inl f
                  | Inr (ok, db, t, ig) \<Rightarrow>
                      if \<not> ok \<and> \<not> warn LineCount line
                      then Inr (False,
                             st\<lparr>airspaces := db, temp_area := t, filetype := ft, ignore := ig\<rparr>)
                      else Parse_lines u g warn (LineCount + 1) rest
                             (st\<lparr>airspaces := db, temp_area := t, filetype := ft,
                                 ignore := ig\<rparr>))))"

definition parse_state_new :: "Airspaces \<Rightarrow> parse_state" where
  "parse_state_new db =
     \<lparr> airspaces = db, temp_area = TempAirspaceType_new, filetype = AFT_UNKNOWN,
       ignore = False \<rparr>"

text \<open>\<open>Parse\<close>: its result and the database afterwards.\<close>

definition Parse ::
  "units \<Rightarrow> geodesy \<Rightarrow> (nat \<Rightarrow> string \<Rightarrow> bool) \<Rightarrow> Airspaces \<Rightarrow> string list
   \<Rightarrow> fault + (bool \<times> Airspaces)" where
  "Parse u g warn db lines =
     (case Parse_lines u g warn 1 lines (parse_state_new db) of
        Inl f \<Rightarrow> Inl f
      | Inr (ok, st) \<Rightarrow>
          if \<not> ok then Inr (False, airspaces st)
          else if filetype st = AFT_UNKNOWN then Inr (False, airspaces st)
          else if \<not> Waiting (temp_area st)
            then Inr (True, AddPolygon (temp_area st) (airspaces st))
          else Inr (True, airspaces st))"

subsection \<open>A geometry to evaluate with\<close>

text \<open>
  Modelled from the spec: the geometry collaborator (distance and bearing between two
  points, the point at a bearing and distance) is not among the sources. This stand-in
  measures on a flat chart in degrees with the taxicab metric, where bearings and
  projected points are rational. It serves to evaluate the parsers on examples; no
  theorem about the parser depends on it.
\<close>

definition chart_cos :: "rat \<Rightarrow> rat" where
  "chart_cos b = (if b \<le> 180 then 1 - b / 90 else b / 90 - 3)"

definition chart_bearing :: "GeoPoint \<Rightarrow> GeoPoint \<Rightarrow> rat" where
  "chart_bearing a b =
     (let dlat = Latitude b - Latitude a;
          dlon = Longitude b - Longitude a;
          d = \<bar>dlat\<bar> + \<bar>dlon\<bar>
      in if d = 0 then 0
         else if 0 \<le> dlon then 90 * (1 - dlat / d)
         else 90 * (3 + dlat / d))"

definition geodesy_chart :: geodesy where
  "geodesy_chart =
     \<lparr> distance_bearing =
         (\<lambda>a b. (\<bar>Latitude b - Latitude a\<bar> + \<bar>Longitude b - Longitude a\<bar>, chart_bearing a b)),
       Bearing = chart_bearing,
       FindLatitudeLongitude =
         (\<lambda>c b r. \<lparr> Latitude = Latitude c + r * chart_cos b,
                    Longitude = Longitude c + r * chart_cos (as_bearing (b - 90)) \<rparr>) \<rparr>"

text \<open>An operator who lets every failed line be skipped, and one who aborts.\<close>

definition warn_continue :: "nat \<Rightarrow> string \<Rightarrow> bool" where
  "warn_continue n line = True"

definition warn_abort :: "nat \<Rightarrow> string \<Rightarrow> bool" where
  "warn_abort n line = False"

subsection \<open>Notions to state the properties with\<close>

text \<open>
  A run of decimal digits as it stands in a compact TNP coordinate: the two digits of a
  number below 100, the three digits of a number below 1000.
\<close>

definition digit_char :: "nat \<Rightarrow> char" where
  "digit_char n = ''0123456789'' ! n"

definition two_digits :: "nat \<Rightarrow> string" where
  "two_digits n = [digit_char (n div 10), digit_char (n mod 10)]"

definition three_digits :: "nat \<Rightarrow> string" where
  "three_digits n = digit_char (n div 100) # two_digits (n mod 100)"

text \<open>The angle of degrees, minutes and seconds, negated on the southern or western side.\<close>

definition signed_dms :: "bool \<Rightarrow> nat \<Rightarrow> nat \<Rightarrow> nat \<Rightarrow> rat" where
  "signed_dms negative D M S =
     (if negative then - dms (of_nat D) (of_nat M) (of_nat S)
      else dms (of_nat D) (of_nat M) (of_nat S))"

text \<open>The bearing of an arc after \<open>k\<close> steps: each step adds the signed step and normalises.\<close>

definition arc_bearing :: "rat \<Rightarrow> rat \<Rightarrow> nat \<Rightarrow> rat" where
  "arc_bearing step b k = ((\<lambda>x. as_bearing (x + step)) ^^ k) b"

text \<open>A pending record in the middle of an airspace, to evaluate the line parsers on.\<close>

definition TempAirspaceType_example :: TempAirspaceType where
  "TempAirspaceType_example =
     TempAirspaceType_new
       \<lparr> Waiting := False, Name := ''Test'', Radio := ''123.5'',
         points := [\<lparr>Latitude = 50, Longitude = 10\<rparr>], Rotation := - 1 \<rparr>"

section \<open>Properties\<close>

subsection \<open>Unfolding the model on concrete lines\<close>

lemmas scan_defs = ReadAltitude_def ReadAltitude_scan.simps ReadAltitude_token_def char_at_def
  NUL_def skip_spaces.simps peek_def is_digit_def tcsnicmp_eq_def to_upper_def tcstod_at_def
  tcstod_def scan_exponent_def pow10_def digit_val_def is_space_def AirspaceAltitude_default_def

lemmas line_defs = ParseLine_def ParseLine_D_def ParseLine_A_def ParseLine_V_def
  value_after_space_def after_void_def read_Base_def read_Top_def CalculateArc_def
  ParseType_def airspace_class_strings_def string_after_prefix_def string_after_prefix_ci_def

lemma normalize_id:
  "- 180 \<le> Longitude pt \<Longrightarrow> Longitude pt < 180 \<Longrightarrow> normalize pt = pt"
proof -
  assume a: "- 180 \<le> Longitude pt" and b: "Longitude pt < 180"
  have "\<lfloor>(Longitude pt + 180) / 360\<rfloor> = 0"
    by (rule floor_unique) (use a b in auto)
  then show ?thesis by (simp add: normalize_def)
qed

lemma GeoPoint_overwrite:
  "(p :: GeoPoint)\<lparr>Latitude := a, Longitude := b\<rparr> = \<lparr>Latitude = a, Longitude = b\<rparr>"
  by (cases p) simp

lemmas tnp_defs = ParseLineTNP_def ParseLineTNP_directive_def string_after_prefix_ci_def
  tcsnicmp_eq_def to_upper_def ParseCircleTNP_def ParseCoordsTNP_def tcstol_def split_dms_def
  cdiv_def dms_def deref_def skip_one_space_def is_digit_def digit_val_def is_space_def
  LONG_MAX_def LONG_MIN_def tcstod_def scan_exponent_def pow10_def

subsection \<open>The altitude scan\<close>

text \<open>
  Claim C10. The scan of \<open>ReadAltitude\<close> should look only at positions inside the string,
  the terminating NUL included. The loop moves \<open>p\<close> behind each token and then steps
  once more in its header, so on a string that ends with a token (or in a blank that the
  inner loop has skipped) the next test \<open>*p != '\0'\<close> reads behind the terminator: the
  out-of-range branch is reached on "SFC", "GND", "FL100", a digit run and a single blank.
\<close>

theorem ReadAltitude_reads_past_terminator:
  "ReadAltitude u ''SFC'' = Inl OutOfBounds
   \<and> ReadAltitude u ''GND'' = Inl OutOfBounds
   \<and> ReadAltitude u ''FL100'' = Inl OutOfBounds
   \<and> ReadAltitude u ''3500'' = Inl OutOfBounds
   \<and> ReadAltitude u '' '' = Inl OutOfBounds"
  by (simp add: scan_defs)

text \<open>
  Where one more character follows, the scan ends on the terminator. The character
  behind a token is stepped over unseen: "FL100" followed by a blank is flight level 0
  (the scan resumes at the second digit), "FL 100" followed by a blank is flight level 100.
\<close>

lemma ReadAltitude_FL100_blank:
  "ReadAltitude u ''FL100 '' =
     Inr \<lparr> altitude = 0, flight_level = 0, altitude_above_terrain = 0, type = FL \<rparr>"
  by (simp add: scan_defs)

lemma ReadAltitude_FL_100_blank:
  "ReadAltitude u ''FL 100 '' =
     Inr \<lparr> altitude = 0, flight_level = 100, altitude_above_terrain = 0, type = FL \<rparr>"
  by (simp add: scan_defs)

text \<open>
  Claim C5, as stated: "UNL" parses to the datum MSL, the sentinel -1 and the altitude
  50000 in system units. On "UNL" itself the scan leaves the string; and where it ends
  (one character behind the token) neither number is kept as it is: no unit was seen, so
  both go through the feet conversion behind the loop.
\<close>

theorem ReadAltitude_UNL_counterexample:
  "ReadAltitude units_si ''UNL'' = Inl OutOfBounds
   \<and> ReadAltitude units_si ''UNL '' =
       Inr \<lparr> altitude = 15240, flight_level = 0, altitude_above_terrain = - (381 / 1250),
             type = MSL \<rparr>"
  by (simp add: scan_defs units_si_def)

text \<open>
  Claim C5, amended: "UNL" followed by one more character parses to the datum MSL with
  the altitude and the AGL-relative value being the feet-to-system conversions of 50000
  and of the sentinel -1.
\<close>

theorem ReadAltitude_UNL:
  "c \<noteq> NUL \<Longrightarrow>
   ReadAltitude u (''UNL'' @ [c]) =
     Inr \<lparr> altitude = FeetToSys u 50000, flight_level = 0,
           altitude_above_terrain = FeetToSys u (- 1), type = MSL \<rparr>"
  by (simp add: scan_defs)

theorem ReadAltitude_UNL_witness:
  "CHR '' '' \<noteq> NUL \<and>
   ReadAltitude units_si ''UNL '' =
     Inr \<lparr> altitude = FeetToSys units_si 50000, flight_level = 0,
           altitude_above_terrain = FeetToSys units_si (- 1), type = MSL \<rparr>"
  using ReadAltitude_UNL [of "CHR '' ''" units_si] by (simp add: NUL_def)

lemma GND_not_digit:
  assumes "tcsnicmp_eq (drop q Text) ''GND''"
  shows "\<not> is_digit (peek Text q)"
proof -
  from assms obtain c cs where d: "drop q Text = c # cs"
    by (cases "drop q Text") (auto simp: tcsnicmp_eq_def)
  then have q: "q < length Text"
    by (cases "q < length Text") auto
  from d q have c: "Text ! q = c"
    by (metis nth_via_drop)
  from assms d have "to_upper c = CHR ''G''"
    by (simp add: tcsnicmp_eq_def to_upper_def)
  then have "\<not> is_digit c"
    by (auto simp: is_digit_def to_upper_def split: if_splits)
  with q c show ?thesis by (simp add: peek_def)
qed

text \<open>
  Claim C6. Whenever a round of the scan stands on the token GND (in any case of the
  letters, behind the blanks it skips), the datum becomes AGL; a plain altitude above
  zero moves into the AGL-relative field and the plain field becomes zero; otherwise the
  AGL-relative field becomes the sentinel -1.
\<close>

theorem ReadAltitude_GND_token:
  assumes "tcsnicmp_eq (drop (skip_spaces Text p) Text) ''GND''"
  shows "type (fst (fst (ReadAltitude_token u Text p (Alt, fHasUnit)))) = AGL
    \<and> (if altitude Alt > 0
        then altitude_above_terrain (fst (fst (ReadAltitude_token u Text p (Alt, fHasUnit))))
               = altitude Alt
           \<and> altitude (fst (fst (ReadAltitude_token u Text p (Alt, fHasUnit)))) = 0
        else altitude_above_terrain (fst (fst (ReadAltitude_token u Text p (Alt, fHasUnit))))
               = - 1)"
  using assms GND_not_digit [OF assms]
  by (simp add: ReadAltitude_token_def Let_def)

theorem ReadAltitude_GND_token_witness:
  "tcsnicmp_eq (drop (skip_spaces ''100 gnd '' 3) ''100 gnd '') ''GND''
   \<and> type (fst (fst (ReadAltitude_token units_si ''100 gnd '' 3
         (AirspaceAltitude_default\<lparr>altitude := 100\<rparr>, False)))) = AGL
   \<and> altitude_above_terrain (fst (fst (ReadAltitude_token units_si ''100 gnd '' 3
         (AirspaceAltitude_default\<lparr>altitude := 100\<rparr>, False)))) = 100
   \<and> altitude (fst (fst (ReadAltitude_token units_si ''100 gnd '' 3
         (AirspaceAltitude_default\<lparr>altitude := 100\<rparr>, False)))) = 0
   \<and> altitude_above_terrain (fst (fst (ReadAltitude_token units_si ''GND ;'' 0
         (AirspaceAltitude_default, False)))) = - 1"
proof -
  have h1: "tcsnicmp_eq (drop (skip_spaces ''100 gnd '' 3) ''100 gnd '') ''GND''"
    by (simp add: skip_spaces.simps tcsnicmp_eq_def to_upper_def)
  have h2: "tcsnicmp_eq (drop (skip_spaces ''GND ;'' 0) ''GND ;'') ''GND''"
    by (simp add: skip_spaces.simps tcsnicmp_eq_def to_upper_def)
  show ?thesis
    using h1
      ReadAltitude_GND_token [OF h1, of units_si "AirspaceAltitude_default\<lparr>altitude := 100\<rparr>" False]
      ReadAltitude_GND_token [OF h2, of units_si AirspaceAltitude_default False]
    by (simp add: AirspaceAltitude_default_def)
qed

subsection \<open>The OpenAir example\<close>

text \<open>
  Claim C1. The lines AC R, AN Test, AL SFC, AH FL100 and three DP lines, followed by
  a new AC line or the end of the file, should give one polygon of class RESTRICT named
  "Test", from the surface to flight level 100, with the three vertices. The parse does
  not get there: on the line AL SFC the altitude scan reads behind the terminator,
  whatever follows the example.
\<close>

theorem Parse_example_reads_past_terminator:
  "Parse u g warn db
     ([''AC R'', ''AN Test'', ''AL SFC'', ''AH FL100'',
       ''DP 50:00:00 N 010:00:00 E'', ''DP 50:10:00 N 010:00:00 E'',
       ''DP 50:10:00 N 010:10:00 E''] @ rest) = Inl OutOfBounds"
  by (simp add: Parse_def parse_state_new_def DetectFileType_def line_defs scan_defs
        deref_def TempAirspaceType_new_def reset_def)

text \<open>
  With a blank behind each altitude the example parses; the polygon then has the class,
  the name, the base and the vertices of the claim, and flight level 0 as its top.
\<close>

lemma Parse_example_with_blanks:
  "Parse u g warn []
     [''AC R'', ''AN Test'', ''AL SFC '', ''AH FL100 '',
       ''DP 50:00:00 N 010:00:00 E'', ''DP 50:10:00 N 010:00:00 E'',
       ''DP 50:10:00 N 010:10:00 E''] =
   Inr (True,
     [\<lparr> as_shape = AirspacePolygon
           [\<lparr>Latitude = 50, Longitude = 10\<rparr>, \<lparr>Latitude = 301 / 6, Longitude = 10\<rparr>,
            \<lparr>Latitude = 301 / 6, Longitude = 61 / 6\<rparr>],
         as_name = ''Test'', as_type = RESTRICT,
         as_base = \<lparr>altitude = 0, flight_level = 0, altitude_above_terrain = - 1, type = AGL\<rparr>,
         as_top = \<lparr>altitude = 0, flight_level = 0, altitude_above_terrain = 0, type = FL\<rparr>,
         as_radio = [], as_days = ALL_DAYS \<rparr>])"
  by code_simp

subsection \<open>Coordinates that do not parse\<close>

text \<open>
  Claim C2. A DB line on which a coordinate does not parse should fail like a DP line
  does. \<open>CalculateArc\<close> has no result to report it with: the line returns true with the
  pending record untouched, for either coordinate, where the DP line returns false.
\<close>

theorem ParseLine_DB_swallows_failure:
  "ParseLine u g db ''DB xx'' t = Inr (True, db, t)
   \<and> ParseLine u g db ''DB 50:00:00 N 010:00:00 E,xx'' t = Inr (True, db, t)
   \<and> ParseLine u g db ''DP xx'' t = Inr (False, db, t)"
  by (simp add: line_defs ReadCoords_def ReadCoords_longitude_def ReadCoords_min_sec_def
       deref_def skip_one_space_def normalize_def GeoPoint_blank_def tcstod_def
       scan_exponent_def pow10_def digit_val_def is_space_def is_digit_def NUL_def)

text \<open>
  Claim C4. \<open>ReadCoords\<close> should return false when the scan of either axis finds no
  digits. For the longitude the test compares the end of the scan with the start of the
  whole text, not with the start of this scan, so it never holds: a longitude without
  digits is read as 0 and the function returns true.
\<close>

theorem ReadCoords_longitude_without_digits:
  "ReadCoords ''50:00:00 N E'' pt = (True, \<lparr> Latitude = 50, Longitude = 0 \<rparr>)"
  by (cases pt)
    (simp add: ReadCoords_def ReadCoords_longitude_def ReadCoords_min_sec_def deref_def
       skip_one_space_def normalize_id tcstod_def scan_exponent_def pow10_def digit_val_def
       is_space_def is_digit_def NUL_def)

subsection \<open>The ignore flag of the TNP dialect\<close>

lemma ParseLineTNP_ignored:
  "string_after_prefix_ci line ''INCLUDE='' = None \<Longrightarrow>
   ParseLineTNP u g db line t True = Inr (True, db, t, True)"
  by (simp add: ParseLineTNP_def)

lemma Parse_lines_TNP_step:
  assumes "takeWhile (\<lambda>c. c \<noteq> CHR ''*'') raw \<noteq> []"
    and "(if filetype st = AFT_UNKNOWN
          then DetectFileType (takeWhile (\<lambda>c. c \<noteq> CHR ''*'') raw)
          else filetype st) = AFT_TNP"
    and "ParseLineTNP u g (airspaces st) (takeWhile (\<lambda>c. c \<noteq> CHR ''*'') raw)
           (temp_area st) (ignore st) = Inr (True, db, t, ig)"
  shows "Parse_lines u g warn n (raw # rest) st
           = Parse_lines u g warn (n + 1) rest
               (st\<lparr>airspaces := db, temp_area := t, filetype := AFT_TNP, ignore := ig\<rparr>)"
  using assms by (simp add: Let_def)

lemma Parse_lines_ignored:
  assumes "filetype st = AFT_TNP" and "ignore st"
    and "\<forall>l \<in> set ls.
           string_after_prefix_ci (takeWhile (\<lambda>c. c \<noteq> CHR ''*'') l) ''INCLUDE='' = None"
  shows "Parse_lines u g warn n (ls @ rest) st = Parse_lines u g warn (n + length ls) rest st"
  using assms
proof (induction ls arbitrary: n)
  case Nil
  then show ?case by simp
next
  case (Cons l ls)
  let ?line = "takeWhile (\<lambda>c. c \<noteq> CHR ''*'') l"
  from Cons.prems have inc: "string_after_prefix_ci ?line ''INCLUDE='' = None" by simp
  have keep: "st\<lparr>airspaces := airspaces st, temp_area := temp_area st, filetype := AFT_TNP,
                  ignore := True\<rparr> = st"
    using Cons.prems(1,2) by (cases st) simp
  have step: "Parse_lines u g warn n ((l # ls) @ rest) st
                = Parse_lines u g warn (n + 1) (ls @ rest) st"
  proof (cases "?line = []")
    case True
    then show ?thesis by simp
  next
    case False
    have ft: "(if filetype st = AFT_UNKNOWN then DetectFileType ?line else filetype st) = AFT_TNP"
      using Cons.prems(1) by simp
    have pl: "ParseLineTNP u g (airspaces st) ?line (temp_area st) (ignore st)
                = Inr (True, airspaces st, temp_area st, True)"
      using ParseLineTNP_ignored [OF inc] Cons.prems(2) by simp
    from Parse_lines_TNP_step [OF False ft pl, of warn n "ls @ rest"] keep
    show ?thesis by simp
  qed
  from Cons.IH [of "n + 1"] Cons.prems
  have "Parse_lines u g warn (n + 1) (ls @ rest) st
          = Parse_lines u g warn (n + 1 + length ls) rest st"
    by simp
  with step show ?case by simp
qed

lemma string_after_prefix_ci_INCLUDE_NO:
  "string_after_prefix_ci ''INCLUDE=NO'' ''INCLUDE='' = Some ''NO''"
  by (simp add: string_after_prefix_ci_def tcsnicmp_eq_def)

lemma string_after_prefix_ci_INCLUDE_YES:
  "string_after_prefix_ci ''INCLUDE=YES'' ''INCLUDE='' = Some ''YES''"
  by (simp add: string_after_prefix_ci_def tcsnicmp_eq_def)

lemma Parse_lines_INCLUDE_NO:
  assumes "filetype st \<noteq> AFT_OPENAIR"
  shows "Parse_lines u g warn n (''INCLUDE=NO'' # rest) st
           = Parse_lines u g warn (n + 1) rest (st\<lparr>filetype := AFT_TNP, ignore := True\<rparr>)"
proof -
  have tw: "takeWhile (\<lambda>c. c \<noteq> CHR ''*'') ''INCLUDE=NO'' = ''INCLUDE=NO''" by simp
  have ne: "takeWhile (\<lambda>c. c \<noteq> CHR ''*'') ''INCLUDE=NO'' \<noteq> []" by simp
  have ft: "(if filetype st = AFT_UNKNOWN
             then DetectFileType (takeWhile (\<lambda>c. c \<noteq> CHR ''*'') ''INCLUDE=NO'')
             else filetype st) = AFT_TNP"
    unfolding tw using assms
    by (cases "filetype st")
      (simp_all add: DetectFileType_def string_after_prefix_ci_INCLUDE_NO)
  have pl: "ParseLineTNP u g (airspaces st) (takeWhile (\<lambda>c. c \<noteq> CHR ''*'') ''INCLUDE=NO'')
              (temp_area st) (ignore st) = Inr (True, airspaces st, temp_area st, True)"
    unfolding tw
    by (simp add: ParseLineTNP_def string_after_prefix_ci_INCLUDE_NO tcsicmp_eq_def to_upper_def)
  have eq: "st\<lparr>airspaces := airspaces st, temp_area := temp_area st, filetype := AFT_TNP,
                ignore := True\<rparr> = st\<lparr>filetype := AFT_TNP, ignore := True\<rparr>"
    by (cases st) simp
  from Parse_lines_TNP_step [OF ne ft pl, of warn n rest] eq
  show ?thesis by simp
qed

lemma Parse_lines_INCLUDE_YES:
  assumes "filetype st = AFT_TNP"
  shows "Parse_lines u g warn n (''INCLUDE=YES'' # rest) st
           = Parse_lines u g warn (n + 1) rest (st\<lparr>ignore := False\<rparr>)"
proof -
  have tw: "takeWhile (\<lambda>c. c \<noteq> CHR ''*'') ''INCLUDE=YES'' = ''INCLUDE=YES''" by simp
  have ne: "takeWhile (\<lambda>c. c \<noteq> CHR ''*'') ''INCLUDE=YES'' \<noteq> []" by simp
  have ft: "(if filetype st = AFT_UNKNOWN
             then DetectFileType (takeWhile (\<lambda>c. c \<noteq> CHR ''*'') ''INCLUDE=YES'')
             else filetype st) = AFT_TNP"
    using assms by simp
  have pl: "ParseLineTNP u g (airspaces st) (takeWhile (\<lambda>c. c \<noteq> CHR ''*'') ''INCLUDE=YES'')
              (temp_area st) (ignore st) = Inr (True, airspaces st, temp_area st, False)"
    unfolding tw
    by (simp add: ParseLineTNP_def string_after_prefix_ci_INCLUDE_YES tcsicmp_eq_def to_upper_def)
  have eq: "st\<lparr>airspaces := airspaces st, temp_area := temp_area st, filetype := AFT_TNP,
                ignore := False\<rparr> = st\<lparr>ignore := False\<rparr>"
    using assms by (cases st) simp
  from Parse_lines_TNP_step [OF ne ft pl, of warn n rest] eq
  show ?thesis by simp
qed

text \<open>
  Claim C8. While the ignore flag is set, a TNP line that is not an INCLUDE= line
  returns true and leaves the database, the pending record and the flag as they are.
  So the lines INCLUDE=NO, any lines that are not INCLUDE= lines (POINT= and TYPE= lines
  among them), INCLUDE=YES leave the driver where it was, with the flag cleared; a file
  that consists of such a span adds nothing to the database.
\<close>

theorem TNP_ignored_span:
  assumes "string_after_prefix_ci line ''INCLUDE='' = None"
    and "filetype st \<noteq> AFT_OPENAIR"
    and "\<forall>l \<in> set ls.
           string_after_prefix_ci (takeWhile (\<lambda>c. c \<noteq> CHR ''*'') l) ''INCLUDE='' = None"
  shows "ParseLineTNP u g db line t True = Inr (True, db, t, True)
    \<and> Parse_lines u g warn n (''INCLUDE=NO'' # ls @ ''INCLUDE=YES'' # rest) st
        = Parse_lines u g warn (n + length ls + 2) rest (st\<lparr>filetype := AFT_TNP, ignore := False\<rparr>)
    \<and> Parse u g warn db (''INCLUDE=NO'' # ls @ [''INCLUDE=YES'']) = Inr (True, db)"
proof (intro conjI)
  show "ParseLineTNP u g db line t True = Inr (True, db, t, True)"
    using assms(1) by (rule ParseLineTNP_ignored)
next
  have span: "Parse_lines u g warn n (''INCLUDE=NO'' # ls @ ''INCLUDE=YES'' # rest) s
        = Parse_lines u g warn (n + length ls + 2) rest (s\<lparr>filetype := AFT_TNP, ignore := False\<rparr>)"
    if s: "filetype s \<noteq> AFT_OPENAIR" for s n rest
  proof -
    let ?s1 = "s\<lparr>filetype := AFT_TNP, ignore := True\<rparr>"
    have "Parse_lines u g warn n (''INCLUDE=NO'' # ls @ ''INCLUDE=YES'' # rest) s
            = Parse_lines u g warn (n + 1) (ls @ ''INCLUDE=YES'' # rest) ?s1"
      using s by (rule Parse_lines_INCLUDE_NO)
    also have "\<dots> = Parse_lines u g warn (n + 1 + length ls) (''INCLUDE=YES'' # rest) ?s1"
      using assms(3) by (intro Parse_lines_ignored) simp_all
    also have "\<dots> = Parse_lines u g warn (n + 1 + length ls + 1) rest (?s1\<lparr>ignore := False\<rparr>)"
      by (intro Parse_lines_INCLUDE_YES) simp
    finally show ?thesis by (simp add: add.commute add.left_commute)
  qed
  from span [OF assms(2)]
  show "Parse_lines u g warn n (''INCLUDE=NO'' # ls @ ''INCLUDE=YES'' # rest) st
        = Parse_lines u g warn (n + length ls + 2) rest (st\<lparr>filetype := AFT_TNP, ignore := False\<rparr>)" .
  have "filetype (parse_state_new db) \<noteq> AFT_OPENAIR"
    by (simp add: parse_state_new_def)
  from span [OF this, of 1 "[]"]
  show "Parse u g warn db (''INCLUDE=NO'' # ls @ [''INCLUDE=YES'']) = Inr (True, db)"
    by (simp add: Parse_def parse_state_new_def TempAirspaceType_new_def reset_def)
qed

theorem TNP_ignored_span_witness:
  "string_after_prefix_ci ''TYPE=R'' ''INCLUDE='' = None
   \<and> filetype (parse_state_new []) \<noteq> AFT_OPENAIR
   \<and> string_after_prefix_ci (takeWhile (\<lambda>c. c \<noteq> CHR ''*'') ''POINT=N542500 E0105000'')
         ''INCLUDE='' = None
   \<and> string_after_prefix_ci (takeWhile (\<lambda>c. c \<noteq> CHR ''*'') ''TYPE=R'') ''INCLUDE='' = None
   \<and> string_after_prefix_ci (takeWhile (\<lambda>c. c \<noteq> CHR ''*'') ''POINT=N542600 E0105000'')
         ''INCLUDE='' = None
   \<and> ParseLineTNP units_si geodesy_chart [] ''TYPE=R'' TempAirspaceType_new True
        = Inr (True, [], TempAirspaceType_new, True)
   \<and> Parse units_si geodesy_chart warn_abort []
        [''INCLUDE=NO'', ''POINT=N542500 E0105000'', ''TYPE=R'', ''POINT=N542600 E0105000'',
         ''INCLUDE=YES''] = Inr (True, [])"
proof -
  have h1: "string_after_prefix_ci ''TYPE=R'' ''INCLUDE='' = None"
    by (simp add: string_after_prefix_ci_def tcsnicmp_eq_def to_upper_def)
  have h2: "filetype (parse_state_new []) \<noteq> AFT_OPENAIR"
    by (simp add: parse_state_new_def)
  have h3: "\<forall>l \<in> set [''POINT=N542500 E0105000'', ''TYPE=R'', ''POINT=N542600 E0105000''].
        string_after_prefix_ci (takeWhile (\<lambda>c. c \<noteq> CHR ''*'') l) ''INCLUDE='' = None"
    by (simp add: string_after_prefix_ci_def tcsnicmp_eq_def to_upper_def)
  from TNP_ignored_span [OF h1 h2 h3, where u = units_si and g = geodesy_chart and db = "[]"
      and t = TempAirspaceType_new and warn = warn_abort] h1 h2 h3
  show ?thesis by simp
qed


subsection \<open>What an emission leaves in the pending record\<close>

text \<open>
  Claim C3, as stated: after each emission the pending record is back at its defaults,
  name and base and top altitude included. After AC R, AN Test, AL SFC and a DC line the
  circle is in the database and the record still holds the name and the base altitude.
\<close>

theorem emission_keeps_name_and_base_counterexample:
  "Parse_lines units_si geodesy_chart warn_continue 1
     [''AC R'', ''AN Test'', ''AL SFC '', ''DC 5''] (parse_state_new []) =
   Inr (True,
     \<lparr> airspaces =
         [\<lparr> as_shape = AirspaceCircle \<lparr>Latitude = 0, Longitude = 0\<rparr> 9260,
            as_name = ''Test'', as_type = RESTRICT,
            as_base = \<lparr>altitude = 0, flight_level = 0, altitude_above_terrain = - 1,
                        type = AGL\<rparr>,
            as_top = AirspaceAltitude_default, as_radio = [], as_days = ALL_DAYS \<rparr>],
       temp_area =
         TempAirspaceType_new
           \<lparr> Name := ''Test'',
             Base := \<lparr>altitude = 0, flight_level = 0, altitude_above_terrain = - 1,
                      type = AGL\<rparr> \<rparr>,
       filetype = AFT_OPENAIR, ignore = False \<rparr>)
   \<and> Name (TempAirspaceType_new\<lparr>Name := ''Test''\<rparr>) \<noteq> Name TempAirspaceType_new
   \<and> Base (TempAirspaceType_new
             \<lparr>Base := \<lparr>altitude = 0, flight_level = 0, altitude_above_terrain = - 1,
                       type = AGL\<rparr>\<rparr>) \<noteq> Base TempAirspaceType_new"
  by (simp add: parse_state_new_def DetectFileType_def line_defs scan_defs
        deref_def TempAirspaceType_new_def reset_def units_si_def AddCircle_def make_airspace_def
        GeoPoint_blank_def warn_continue_def)

lemma TYPE_prefix_first:
  assumes "string_after_prefix_ci line ''TYPE='' = Some v"
  shows "string_after_prefix_ci line ''POINT='' = None"
    and "string_after_prefix_ci line ''CIRCLE '' = None"
    and "string_after_prefix_ci line ''CLOCKWISE '' = None"
    and "string_after_prefix_ci line ''ANTI-CLOCKWISE '' = None"
    and "string_after_prefix_ci line ''TITLE='' = None"
    and "string_after_prefix_ci line ''INCLUDE='' = None"
proof -
  from assms obtain c0 c1 rest where l: "line = c0 # c1 # rest"
    and c0: "to_upper c0 = CHR ''T''" and c1: "to_upper c1 = CHR ''Y''"
    by (cases line; cases "tl line")
      (auto simp: string_after_prefix_ci_def tcsnicmp_eq_def to_upper_def split: if_splits)
  from l c0 c1 show "string_after_prefix_ci line ''POINT='' = None"
    and "string_after_prefix_ci line ''CIRCLE '' = None"
    and "string_after_prefix_ci line ''CLOCKWISE '' = None"
    and "string_after_prefix_ci line ''ANTI-CLOCKWISE '' = None"
    and "string_after_prefix_ci line ''TITLE='' = None"
    and "string_after_prefix_ci line ''INCLUDE='' = None"
    by (simp_all add: string_after_prefix_ci_def tcsnicmp_eq_def to_upper_def)
qed

lemma reset_Radius: "reset (t\<lparr>Radius := r\<rparr>) = reset t"
  by (simp add: reset_def)

text \<open>
  Claim C3, amended: the OpenAir lines AC (with a well-formed value) and DC and the TNP
  line TYPE= emit (AC and TYPE= only when a record is pending) and then reset the record:
  radio, classification, vertices, centre, radius, rotation and days of operation are at
  their defaults (AC and TYPE= then store the new classification and clear the waiting
  flag), while name, base and top altitude keep their values.
\<close>

theorem emission_then_reset:
  assumes "deref l1 = CHR ''D'' \<or> deref l1 = CHR ''d''"
    and "deref (tl l1) = CHR ''C'' \<or> deref (tl l1) = CHR ''c''"
    and "deref l2 = CHR ''A'' \<or> deref l2 = CHR ''a''"
    and "deref (tl l2) = CHR ''C'' \<or> deref (tl l2) = CHR ''c''"
    and "value_after_space (drop 2 l2) = Some v2"
    and "string_after_prefix_ci l3 ''TYPE='' = Some v3"
  shows "ParseLine u g db l1 t =
           Inr (True,
                AddCircle (t\<lparr>Radius := NauticalMilesToSys u (fst (tcstod (drop 2 l1)))\<rparr>) db,
                reset t)
    \<and> ParseLine u g db l2 t =
           Inr (True, (if Waiting t then db else AddPolygon t db),
                (reset t)\<lparr>Type := ParseType v2, Waiting := False\<rparr>)
    \<and> ParseLineTNP u g db l3 t False =
           Inr (True, (if Waiting t then db else AddPolygon t db),
                (reset t)\<lparr>Type := ParseTypeTNP v3, Waiting := False\<rparr>, False)
    \<and> Radio (reset t) = [] \<and> Type (reset t) = OTHER \<and> points (reset t) = []
    \<and> Center (reset t) = \<lparr>Latitude = 0, Longitude = 0\<rparr> \<and> Radius (reset t) = 0
    \<and> Rotation (reset t) = 1 \<and> days_of_operation (reset t) = ALL_DAYS \<and> Waiting (reset t)
    \<and> Name (reset t) = Name t \<and> Base (reset t) = Base t \<and> Top (reset t) = Top t"
proof -
  have dc: "ParseLine u g db l1 t =
           Inr (True,
                AddCircle (t\<lparr>Radius := NauticalMilesToSys u (fst (tcstod (drop 2 l1)))\<rparr>) db,
                reset t)"
    using assms(1,2) by (auto simp: ParseLine_def ParseLine_D_def Let_def reset_Radius)
  have ac: "ParseLine u g db l2 t =
           Inr (True, (if Waiting t then db else AddPolygon t db),
                (reset t)\<lparr>Type := ParseType v2, Waiting := False\<rparr>)"
    using assms(3,4,5) by (auto simp: ParseLine_def ParseLine_A_def Let_def)
  have ty: "ParseLineTNP u g db l3 t False =
           Inr (True, (if Waiting t then db else AddPolygon t db),
                (reset t)\<lparr>Type := ParseTypeTNP v3, Waiting := False\<rparr>, False)"
    using assms(6) TYPE_prefix_first [OF assms(6)]
    by (simp add: ParseLineTNP_def ParseLineTNP_directive_def)
  have fields: "Radio (reset t) = [] \<and> Type (reset t) = OTHER \<and> points (reset t) = []
    \<and> Center (reset t) = \<lparr>Latitude = 0, Longitude = 0\<rparr> \<and> Radius (reset t) = 0
    \<and> Rotation (reset t) = 1 \<and> days_of_operation (reset t) = ALL_DAYS \<and> Waiting (reset t)
    \<and> Name (reset t) = Name t \<and> Base (reset t) = Base t \<and> Top (reset t) = Top t"
    by (simp add: reset_def)
  from dc ac ty fields show ?thesis by blast
qed

theorem emission_then_reset_witness:
  "(deref ''DC 5'' = CHR ''D'' \<or> deref ''DC 5'' = CHR ''d'')
   \<and> (deref (tl ''DC 5'') = CHR ''C'' \<or> deref (tl ''DC 5'') = CHR ''c'')
   \<and> (deref ''AC Q'' = CHR ''A'' \<or> deref ''AC Q'' = CHR ''a'')
   \<and> (deref (tl ''AC Q'') = CHR ''C'' \<or> deref (tl ''AC Q'') = CHR ''c'')
   \<and> value_after_space (drop 2 ''AC Q'') = Some ''Q''
   \<and> string_after_prefix_ci ''TYPE=GSEC'' ''TYPE='' = Some ''GSEC''
   \<and> ParseLine units_si geodesy_chart [] ''DC 5'' TempAirspaceType_example =
        Inr (True, AddCircle (TempAirspaceType_example\<lparr>Radius := 9260\<rparr>) [], reset TempAirspaceType_example)
   \<and> ParseLine units_si geodesy_chart [] ''AC Q'' TempAirspaceType_example =
        Inr (True, AddPolygon TempAirspaceType_example [], (reset TempAirspaceType_example)\<lparr>Type := DANGER, Waiting := False\<rparr>)
   \<and> ParseLineTNP units_si geodesy_chart [] ''TYPE=GSEC'' TempAirspaceType_example False =
        Inr (True, AddPolygon TempAirspaceType_example [], (reset TempAirspaceType_example)\<lparr>Type := WAVE, Waiting := False\<rparr>, False)
   \<and> points (reset TempAirspaceType_example) = [] \<and> Radio (reset TempAirspaceType_example) = [] \<and> Rotation (reset TempAirspaceType_example) = 1
   \<and> Name (reset TempAirspaceType_example) = ''Test''"
proof -
  have h1: "deref ''DC 5'' = CHR ''D'' \<or> deref ''DC 5'' = CHR ''d''"
    and h2: "deref (tl ''DC 5'') = CHR ''C'' \<or> deref (tl ''DC 5'') = CHR ''c''"
    and h3: "deref ''AC Q'' = CHR ''A'' \<or> deref ''AC Q'' = CHR ''a''"
    and h4: "deref (tl ''AC Q'') = CHR ''C'' \<or> deref (tl ''AC Q'') = CHR ''c''"
    and h5: "value_after_space (drop 2 ''AC Q'') = Some ''Q''"
    and h6: "string_after_prefix_ci ''TYPE=GSEC'' ''TYPE='' = Some ''GSEC''"
    by (simp_all add: deref_def value_after_space_def string_after_prefix_ci_def
          tcsnicmp_eq_def to_upper_def)
  have r: "NauticalMilesToSys units_si (fst (tcstod (drop 2 ''DC 5''))) = 9260"
    by (simp add: units_si_def tcstod_def scan_exponent_def pow10_def digit_val_def
          is_space_def is_digit_def)
  have p: "ParseType ''Q'' = DANGER" "ParseTypeTNP ''GSEC'' = WAVE"
    by (simp_all add: ParseType_def airspace_class_strings_def string_after_prefix_def
          ParseTypeTNP_def tcsicmp_eq_def to_upper_def)
  have w: "\<not> Waiting TempAirspaceType_example" "Name TempAirspaceType_example = ''Test''"
    by (simp_all add: TempAirspaceType_example_def)
  from emission_then_reset [OF h1 h2 h3 h4 h5 h6, of units_si geodesy_chart "[]" TempAirspaceType_example]
    h1 h2 h3 h4 h5 h6 r p w
  show ?thesis by simp
qed

text \<open>The TNP line CIRCLE emits the circle and keeps the record as it is.\<close>

lemma TNP_CIRCLE_keeps_record:
  "ParseLineTNP u g db ''CIRCLE RADIUS=17.00 CENTRE=N533813 E0095943'' t False =
   Inr (True,
        AddCircle (t\<lparr>Radius := NauticalMilesToSys u 17,
                      Center := \<lparr>Latitude = 193093 / 3600, Longitude = 35983 / 3600\<rparr>\<rparr>) db,
        t\<lparr>Radius := NauticalMilesToSys u 17,
           Center := \<lparr>Latitude = 193093 / 3600, Longitude = 35983 / 3600\<rparr>\<rparr>, False)"
  by (simp add: tnp_defs normalize_id GeoPoint_overwrite)

subsection \<open>Compact coordinates\<close>

lemma below_ten: "(n::nat) < 10 \<Longrightarrow> n \<in> {0, 1, 2, 3, 4, 5, 6, 7, 8, 9}"
  by auto

lemma digit_char_props:
  assumes "n < 10"
  shows "is_digit (digit_char n)" and "digit_val (digit_char n) = n"
    and "\<not> is_space (digit_char n)" and "digit_char n \<noteq> CHR ''-''"
    and "digit_char n \<noteq> CHR ''+''"
  using below_ten [OF assms]
  by (auto simp: digit_char_def is_digit_def digit_val_def is_space_def)

lemma scan_digits_digit:
  "n < 10 \<Longrightarrow> scan_digits acc (digit_char n # cs) = scan_digits (10 * acc + n) cs"
  by (simp add: digit_char_props)

lemma scan_digits_two:
  assumes "n < 100"
  shows "scan_digits acc (two_digits n @ cs) = scan_digits (100 * acc + n) cs"
proof -
  from assms have a: "n div 10 < 10" by auto
  have b: "n mod 10 < 10" by simp
  have "scan_digits acc (two_digits n @ cs)
          = scan_digits acc (digit_char (n div 10) # digit_char (n mod 10) # cs)"
    by (simp only: two_digits_def append_Cons append_Nil)
  also have "\<dots> = scan_digits (10 * acc + n div 10) (digit_char (n mod 10) # cs)"
    using a by (rule scan_digits_digit)
  also have "\<dots> = scan_digits (10 * (10 * acc + n div 10) + n mod 10) cs"
    using b by (rule scan_digits_digit)
  also have "10 * (10 * acc + n div 10) + n mod 10 = 100 * acc + n"
    by (simp add: algebra_simps)
  finally show ?thesis .
qed

lemma scan_digits_three:
  assumes "n < 1000"
  shows "scan_digits acc (three_digits n @ cs) = scan_digits (1000 * acc + n) cs"
proof -
  from assms have a: "n div 100 < 10" and b: "n mod 100 < 100" by auto
  have "scan_digits acc (three_digits n @ cs)
          = scan_digits acc (digit_char (n div 100) # two_digits (n mod 100) @ cs)"
    by (simp only: three_digits_def append_Cons)
  also have "\<dots> = scan_digits (10 * acc + n div 100) (two_digits (n mod 100) @ cs)"
    using a by (rule scan_digits_digit)
  also have "\<dots> = scan_digits (100 * (10 * acc + n div 100) + n mod 100) cs"
    using b by (rule scan_digits_two)
  also have "100 * (10 * acc + n div 100) + n mod 100 = 1000 * acc + n"
    by (simp add: algebra_simps)
  finally show ?thesis .
qed

lemma two_digits_head:
  assumes "n < 100"
  shows "dropWhile is_space (two_digits n @ cs) = two_digits n @ cs"
    and "scan_sign (two_digits n @ cs) = (False, two_digits n @ cs)"
    and "length (two_digits n) = 2"
proof -
  from assms have "n div 10 < 10" by auto
  from digit_char_props [OF this]
  show "dropWhile is_space (two_digits n @ cs) = two_digits n @ cs"
    and "scan_sign (two_digits n @ cs) = (False, two_digits n @ cs)"
    and "length (two_digits n) = 2"
    by (simp_all add: two_digits_def)
qed

lemma three_digits_head:
  assumes "n < 1000"
  shows "dropWhile is_space (three_digits n @ cs) = three_digits n @ cs"
    and "scan_sign (three_digits n @ cs) = (False, three_digits n @ cs)"
    and "length (three_digits n) = 3"
proof -
  from assms have "n div 100 < 10" by auto
  from digit_char_props [OF this]
  show "dropWhile is_space (three_digits n @ cs) = three_digits n @ cs"
    and "scan_sign (three_digits n @ cs) = (False, three_digits n @ cs)"
    and "length (three_digits n) = 3"
    by (simp_all add: three_digits_def two_digits_def)
qed

text \<open>The scan of a latitude run DDMMSS that ends at a character which is no digit.\<close>

lemma tcstol_latitude_run:
  assumes "D < 100" and "M < 100" and "S < 100" and "\<not> is_digit c"
  shows "tcstol (two_digits D @ two_digits M @ two_digits S @ c # cs)
           = (int (D * 10000 + M * 100 + S), c # cs)"
proof -
  let ?run = "two_digits D @ two_digits M @ two_digits S @ c # cs"
  have "scan_digits 0 ?run = scan_digits (100 * 0 + D) (two_digits M @ two_digits S @ c # cs)"
    using assms(1) by (rule scan_digits_two)
  also have "\<dots> = scan_digits (100 * (100 * 0 + D) + M) (two_digits S @ c # cs)"
    using assms(2) by (rule scan_digits_two)
  also have "\<dots> = scan_digits (100 * (100 * (100 * 0 + D) + M) + S) (c # cs)"
    using assms(3) by (rule scan_digits_two)
  also have "\<dots> = (100 * (100 * (100 * 0 + D) + M) + S, c # cs)"
    using assms(4) by simp
  finally have sd: "scan_digits 0 ?run = (D * 10000 + M * 100 + S, c # cs)"
    by simp
  have "D * 10000 + M * 100 + S < 1000000"
    using assms by linarith
  then have clamp: "max LONG_MIN (min LONG_MAX (int (D * 10000 + M * 100 + S)))
                      = int (D * 10000 + M * 100 + S)"
    by (simp add: LONG_MAX_def LONG_MIN_def)
  have hd: "scan_sign (dropWhile is_space ?run) = (False, ?run)"
    using two_digits_head(1,2) [OF assms(1), where cs = "two_digits M @ two_digits S @ c # cs"]
    by simp
  have len: "length (c # cs) \<noteq> length ?run"
    by (simp add: two_digits_def)
  show ?thesis
    unfolding tcstol_def hd using sd clamp len by (simp only: Let_def split if_False)
qed

lemma tcstol_longitude_run:
  assumes "D < 1000" and "M < 100" and "S < 100"
  shows "tcstol (three_digits D @ two_digits M @ two_digits S)
           = (int (D * 10000 + M * 100 + S), [])"
proof -
  let ?run = "three_digits D @ two_digits M @ two_digits S"
  have "scan_digits 0 (three_digits D @ two_digits M @ two_digits S @ [])
          = scan_digits (1000 * 0 + D) (two_digits M @ two_digits S @ [])"
    using assms(1) by (rule scan_digits_three)
  also have "\<dots> = scan_digits (100 * (1000 * 0 + D) + M) (two_digits S @ [])"
    using assms(2) by (rule scan_digits_two)
  also have "\<dots> = scan_digits (100 * (100 * (1000 * 0 + D) + M) + S) []"
    using assms(3) by (rule scan_digits_two)
  finally have sd: "scan_digits 0 ?run = (D * 10000 + M * 100 + S, [])" by simp
  have "D * 10000 + M * 100 + S < 10000000"
    using assms by linarith
  then have clamp: "max LONG_MIN (min LONG_MAX (int (D * 10000 + M * 100 + S)))
                      = int (D * 10000 + M * 100 + S)"
    by (simp add: LONG_MAX_def LONG_MIN_def)
  have hd: "scan_sign (dropWhile is_space ?run) = (False, ?run)"
    using three_digits_head(1,2) [OF assms(1), where cs = "two_digits M @ two_digits S"]
    by simp
  have len: "length ([] :: string) \<noteq> length ?run"
    by (simp add: two_digits_def)
  show ?thesis
    unfolding tcstol_def hd using sd clamp len by (simp only: Let_def split if_False)
qed

text \<open>On a number that is not negative the split is by div and mod.\<close>

lemma split_dms_nonneg:
  "0 \<le> v \<Longrightarrow>
   split_dms v = dms (of_int (v div 10000)) (of_int ((v mod 10000) div 100)) (of_int (v mod 100))"
proof -
  assume v: "0 \<le> v"
  then have d: "cdiv v 10000 = v div 10000"
    by (cases "v = 0") (simp_all add: cdiv_def)
  have d0: "0 \<le> v div 10000" using v by simp
  have r: "v - v div 10000 * 10000 = v mod 10000"
    by (simp add: minus_div_mult_eq_mod)
  have m: "cdiv (v mod 10000) 100 = (v mod 10000) div 100"
    by (cases "v mod 10000 = 0") (simp_all add: cdiv_def)
  have m0: "0 \<le> (v mod 10000) div 100" by simp
  have e1: "v = v div 10000 * 10000 + v mod 10000" by simp
  have e2: "v mod 10000 = (v mod 10000) div 100 * 100 + (v mod 10000) mod 100" by simp
  have e3: "(v mod 10000) mod 100 = v mod 100"
    by (rule mod_mod_cancel) simp
  have s: "v - (v mod 10000) div 100 * 100 - v div 10000 * 10000 = v mod 100"
    using e1 e2 e3 by linarith
  have s': "rat_of_int v - rat_of_int ((v mod 10000) div 100) * 100
              - rat_of_int (v div 10000) * 10000 = rat_of_int (v mod 100)"
    using arg_cong [OF s, of rat_of_int] by simp
  show ?thesis
    using d d0 r m m0 s' by (simp add: split_dms_def Let_def)
qed

lemma split_dms_run:
  assumes "M < 100" and "S < 100"
  shows "split_dms (int (D * 10000 + M * 100 + S)) = dms (of_nat D) (of_nat M) (of_nat S)"
proof -
  let ?v = "int (D * 10000 + M * 100 + S)"
  have v: "?v = int (M * 100 + S) + int D * 10000" by simp
  have lt: "int (M * 100 + S) < 10000" using assms by simp
  have a: "?v div 10000 = int D"
    unfolding v using lt by (simp del: of_nat_add of_nat_mult)
  have r: "?v mod 10000 = int (M * 100 + S)"
    unfolding v using lt by (simp del: of_nat_add of_nat_mult)
  have b: "(?v mod 10000) div 100 = int M"
    unfolding r using assms(2) by simp
  have "?v mod 100 = int (M * 100 + S) mod 100"
    unfolding r [symmetric] by (rule mod_mod_cancel [symmetric]) simp
  then have c: "?v mod 100 = int S" using assms(2) by simp
  have "0 \<le> ?v" by simp
  from split_dms_nonneg [OF this] a b c show ?thesis by simp
qed

lemma normalize_range:
  "- 180 \<le> Longitude (normalize pt) \<and> Longitude (normalize pt) < 180"
proof -
  let ?x = "(Longitude pt + 180) / 360"
  have "of_int \<lfloor>?x\<rfloor> \<le> ?x" by (rule of_int_floor_le)
  moreover have "?x < of_int \<lfloor>?x\<rfloor> + 1" using floor_correct [of ?x] by simp
  ultimately show ?thesis
    by (simp add: normalize_def field_simps)
qed

lemma normalize_Latitude: "Latitude (normalize pt) = Latitude pt"
  by (simp add: normalize_def)

text \<open>
  Claim C9. For a compact coordinate made of a hemisphere letter and the digit run
  DDMMSS, a blank, a hemisphere letter and the digit run DDDMMSS, \<open>ParseCoordsTNP\<close>
  returns the point whose latitude is the angle of DD degrees, MM minutes and SS seconds
  and whose longitude is the normalised angle of DDD degrees, MM minutes and SS seconds
  (the number read is split by div and mod, see \<open>split_dms_nonneg\<close>); an axis is negated
  exactly when its letter is S (latitude) or W (longitude), in either case; the longitude
  of the point lies in [-180, 180).
\<close>

theorem ParseCoordsTNP_digit_runs:
  assumes "D1 < 100" and "M1 < 100" and "S1 < 100"
    and "D2 < 1000" and "M2 < 100" and "S2 < 100"
  shows "ParseCoordsTNP
        (hlat # two_digits D1 @ two_digits M1 @ two_digits S1
           @ CHR '' '' # hlon # three_digits D2 @ two_digits M2 @ two_digits S2) pt
        = Inr (True,
            normalize
              \<lparr>Latitude = signed_dms (hlat = CHR ''S'' \<or> hlat = CHR ''s'') D1 M1 S1,
               Longitude = signed_dms (hlon = CHR ''W'' \<or> hlon = CHR ''w'') D2 M2 S2\<rparr>)
    \<and> Latitude (normalize
              \<lparr>Latitude = signed_dms (hlat = CHR ''S'' \<or> hlat = CHR ''s'') D1 M1 S1,
               Longitude = signed_dms (hlon = CHR ''W'' \<or> hlon = CHR ''w'') D2 M2 S2\<rparr>)
        = signed_dms (hlat = CHR ''S'' \<or> hlat = CHR ''s'') D1 M1 S1
    \<and> - 180 \<le> Longitude (normalize
              \<lparr>Latitude = signed_dms (hlat = CHR ''S'' \<or> hlat = CHR ''s'') D1 M1 S1,
               Longitude = signed_dms (hlon = CHR ''W'' \<or> hlon = CHR ''w'') D2 M2 S2\<rparr>)
    \<and> Longitude (normalize
              \<lparr>Latitude = signed_dms (hlat = CHR ''S'' \<or> hlat = CHR ''s'') D1 M1 S1,
               Longitude = signed_dms (hlon = CHR ''W'' \<or> hlon = CHR ''w'') D2 M2 S2\<rparr>) < 180"
proof -
  let ?lat = "signed_dms (hlat = CHR ''S'' \<or> hlat = CHR ''s'') D1 M1 S1"
  let ?lon = "signed_dms (hlon = CHR ''W'' \<or> hlon = CHR ''w'') D2 M2 S2"
  let ?pt = "normalize \<lparr>Latitude = ?lat, Longitude = ?lon\<rparr>"
  have nd: "\<not> is_digit (CHR '' '')" by (simp add: is_digit_def)
  have t1: "tcstol (two_digits D1 @ two_digits M1 @ two_digits S1
              @ CHR '' '' # hlon # three_digits D2 @ two_digits M2 @ two_digits S2)
            = (int (D1 * 10000 + M1 * 100 + S1),
               CHR '' '' # hlon # three_digits D2 @ two_digits M2 @ two_digits S2)"
    using assms(1,2,3) nd by (rule tcstol_latitude_run)
  have t2: "tcstol (three_digits D2 @ two_digits M2 @ two_digits S2)
            = (int (D2 * 10000 + M2 * 100 + S2), [])"
    using assms(4,5,6) by (rule tcstol_longitude_run)
  have s1: "split_dms (int (D1 * 10000 + M1 * 100 + S1))
              = dms (of_nat D1) (of_nat M1) (of_nat S1)"
    using assms(2,3) by (rule split_dms_run)
  have s2: "split_dms (int (D2 * 10000 + M2 * 100 + S2))
              = dms (of_nat D2) (of_nat M2) (of_nat S2)"
    using assms(5,6) by (rule split_dms_run)
  have run: "ParseCoordsTNP
        (hlat # two_digits D1 @ two_digits M1 @ two_digits S1
           @ CHR '' '' # hlon # three_digits D2 @ two_digits M2 @ two_digits S2) pt
        = Inr (True, ?pt)"
    using t1 t2 s1 s2
    by (simp add: ParseCoordsTNP_def deref_def skip_one_space_def Let_def GeoPoint_overwrite
          signed_dms_def)
  have lat: "Latitude ?pt = ?lat" by (simp add: normalize_Latitude)
  from run lat normalize_range [of "\<lparr>Latitude = ?lat, Longitude = ?lon\<rparr>"]
  show ?thesis by blast
qed

theorem ParseCoordsTNP_digit_runs_witness:
  "(54::nat) < 100 \<and> (25::nat) < 100 \<and> (0::nat) < 100
   \<and> (10::nat) < 1000 \<and> (50::nat) < 100 \<and> (0::nat) < 100
   \<and> ParseCoordsTNP ''N542500 E0105000'' GeoPoint_blank
       = Inr (True, \<lparr>Latitude = 54 + 25 / 60, Longitude = 10 + 50 / 60\<rparr>)
   \<and> ParseCoordsTNP ''S542500 W0105000'' GeoPoint_blank
       = Inr (True, \<lparr>Latitude = - (54 + 25 / 60), Longitude = - (10 + 50 / 60)\<rparr>)"
proof -
  have d: "two_digits 54 = ''54''" "two_digits 25 = ''25''" "two_digits 0 = ''00''"
    "three_digits 10 = ''010''" "two_digits 50 = ''50''"
    by (simp_all add: two_digits_def three_digits_def digit_char_def)
  have h: "(54::nat) < 100" "(25::nat) < 100" "(0::nat) < 100" "(10::nat) < 1000" "(50::nat) < 100"
    by simp_all
  from ParseCoordsTNP_digit_runs [OF h(1) h(2) h(3) h(4) h(5) h(3),
      where hlat = "CHR ''N''" and hlon = "CHR ''E''" and pt = GeoPoint_blank]
    ParseCoordsTNP_digit_runs [OF h(1) h(2) h(3) h(4) h(5) h(3),
      where hlat = "CHR ''S''" and hlon = "CHR ''W''" and pt = GeoPoint_blank]
  show ?thesis
    unfolding d by (simp add: signed_dms_def dms_def normalize_id)
qed


subsection \<open>Arcs between two points\<close>

lemma arc_bearing_0: "arc_bearing s b 0 = b"
  by (simp add: arc_bearing_def)

lemma arc_bearing_Suc: "arc_bearing s b (Suc k) = as_bearing (arc_bearing s b k + s)"
  by (simp add: arc_bearing_def)

lemma arc_bearing_shift: "arc_bearing s (as_bearing (b + s)) k = arc_bearing s b (Suc k)"
  unfolding arc_bearing_def by (simp only: funpow_Suc_right o_apply)

lemma as_bearing_id: "0 \<le> x \<Longrightarrow> x < 360 \<Longrightarrow> as_bearing x = x"
proof -
  assume "0 \<le> x" and "x < 360"
  then have "\<lfloor>x / 360\<rfloor> = 0"
    by (intro floor_unique) auto
  then show ?thesis by (simp add: as_bearing_def)
qed

lemma as_bearing_turn: "as_bearing (x + 360 * of_int k) = as_bearing x"
proof -
  have "(x + 360 * of_int k) / 360 = x / 360 + of_int k"
    by (simp add: add_divide_distrib)
  then have "\<lfloor>(x + 360 * of_int k) / 360\<rfloor> = \<lfloor>x / 360 + of_int k\<rfloor>"
    by (simp only:)
  also have "\<dots> = \<lfloor>x / 360\<rfloor> + k"
    by (rule floor_add_int [symmetric])
  finally have "\<lfloor>(x + 360 * of_int k) / 360\<rfloor> = \<lfloor>x / 360\<rfloor> + k" .
  then show ?thesis
    by (simp add: as_bearing_def algebra_simps)
qed

lemma as_bearing_add: "as_bearing (as_bearing x + y) = as_bearing (x + y)"
proof -
  have "as_bearing x + y = (x + y) + 360 * of_int (- \<lfloor>x / 360\<rfloor>)"
    by (simp add: as_bearing_def)
  then show ?thesis
    by (simp only: as_bearing_turn)
qed

lemma arc_bearing_closed:
  assumes "0 \<le> b" and "b < 360"
  shows "arc_bearing s b n = as_bearing (b + of_nat n * s)"
proof (induction n)
  case 0
  with assms show ?case by (simp add: arc_bearing_0 as_bearing_id)
next
  case (Suc n)
  have "arc_bearing s b (Suc n) = as_bearing (as_bearing (b + of_nat n * s) + s)"
    by (simp only: arc_bearing_Suc Suc.IH)
  also have "\<dots> = as_bearing (b + of_nat n * s + s)"
    by (rule as_bearing_add)
  also have "b + of_nat n * s + s = b + of_nat (Suc n) * s"
    by (simp add: algebra_simps)
  finally show ?case .
qed

text \<open>Stepping by 5 degrees from \<open>b\<close> reaches every interval of 5 degrees.\<close>

lemma step_up_reaches:
  assumes "0 \<le> a" and "a + 5 < 360" and "0 \<le> b" and "b < 360"
  shows "\<exists>n. a \<le> as_bearing (b + of_nat n * 5) \<and> as_bearing (b + of_nat n * 5) \<le> a + 5"
proof -
  define a' where "a' = (if b \<le> a then a else a + 360)"
  define n where "n = nat \<lceil>(a' - b) / 5\<rceil>"
  have pos: "0 \<le> (a' - b) / 5"
    using assms by (simp add: a'_def)
  then have "0 \<le> \<lceil>(a' - b) / 5\<rceil>" by (simp add: ceiling_le_iff [symmetric] le_ceiling_iff)
  then have n: "(of_nat n :: rat) = of_int \<lceil>(a' - b) / 5\<rceil>"
    by (simp add: n_def)
  have lo: "(a' - b) / 5 \<le> of_nat n"
    unfolding n by (rule le_of_int_ceiling)
  have hi: "of_nat n < (a' - b) / 5 + 1"
    unfolding n using ceiling_correct [of "(a' - b) / 5"] by linarith
  let ?x = "b + of_nat n * 5"
  from lo hi have x: "a' \<le> ?x" "?x < a' + 5" by (simp_all add: field_simps)
  show ?thesis
  proof (cases "b \<le> a")
    case True
    with x assms have "0 \<le> ?x" "?x < 360" by (simp_all add: a'_def)
    then have "as_bearing ?x = ?x" by (rule as_bearing_id)
    with x True have "a \<le> as_bearing ?x \<and> as_bearing ?x \<le> a + 5" by (simp add: a'_def)
    then show ?thesis by blast
  next
    case False
    with x assms have "0 \<le> ?x - 360" "?x - 360 < 360" by (simp_all add: a'_def)
    then have "as_bearing (?x - 360) = ?x - 360" by (rule as_bearing_id)
    moreover have "as_bearing (?x - 360) = as_bearing ?x"
      using as_bearing_turn [of ?x "- 1"] by simp
    ultimately have "as_bearing ?x = ?x - 360" by simp
    with x False have "a \<le> as_bearing ?x \<and> as_bearing ?x \<le> a + 5" by (simp add: a'_def)
    then show ?thesis by blast
  qed
qed

lemma step_down_reaches:
  assumes "0 \<le> a" and "a + 5 < 360" and "0 \<le> b" and "b < 360"
  shows "\<exists>n. a \<le> as_bearing (b + of_nat n * (- 5)) \<and> as_bearing (b + of_nat n * (- 5)) \<le> a + 5"
proof -
  define a' where "a' = (if a + 5 \<le> b then a + 5 else a + 5 - 360)"
  define n where "n = nat \<lceil>(b - a') / 5\<rceil>"
  have pos: "0 \<le> (b - a') / 5"
    using assms by (simp add: a'_def)
  then have "0 \<le> \<lceil>(b - a') / 5\<rceil>" by (simp add: ceiling_le_iff [symmetric] le_ceiling_iff)
  then have n: "(of_nat n :: rat) = of_int \<lceil>(b - a') / 5\<rceil>"
    by (simp add: n_def)
  have lo: "(b - a') / 5 \<le> of_nat n"
    unfolding n by (rule le_of_int_ceiling)
  have hi: "of_nat n < (b - a') / 5 + 1"
    unfolding n using ceiling_correct [of "(b - a') / 5"] by linarith
  let ?x = "b + of_nat n * (- 5)"
  from lo hi have x: "?x \<le> a'" "a' - 5 < ?x" by (simp_all add: field_simps)
  show ?thesis
  proof (cases "a + 5 \<le> b")
    case True
    with x assms have "0 \<le> ?x" "?x < 360" by (simp_all add: a'_def)
    then have "as_bearing ?x = ?x" by (rule as_bearing_id)
    with x True have "a \<le> as_bearing ?x \<and> as_bearing ?x \<le> a + 5" by (simp add: a'_def)
    then show ?thesis by blast
  next
    case False
    with x assms have "0 \<le> ?x + 360" "?x + 360 < 360" by (simp_all add: a'_def)
    then have "as_bearing (?x + 360) = ?x + 360" by (rule as_bearing_id)
    moreover have "as_bearing (?x + 360) = as_bearing ?x"
      using as_bearing_turn [of ?x 1] by simp
    ultimately have "as_bearing ?x = ?x + 360" by simp
    with x False have "a \<le> as_bearing ?x \<and> as_bearing ?x \<le> a + 5" by (simp add: a'_def)
    then show ?thesis by blast
  qed
qed

lemma arc_reaches_end:
  assumes "s = 5 \<or> s = - 5" and "0 \<le> b" and "b < 360" and "0 \<le> e" and "e < 360"
  shows "\<exists>n. magnitude_degrees (e - arc_bearing s b n) \<le> 15 / 2"
proof -
  define a where "a = (if 5 \<le> e then e - 5 else e)"
  have a: "0 \<le> a" "a + 5 < 360" "a \<le> e" "e \<le> a + 5"
    using assms(4,5) by (simp_all add: a_def)
  have "\<exists>n. a \<le> as_bearing (b + of_nat n * s) \<and> as_bearing (b + of_nat n * s) \<le> a + 5"
    using assms(1) step_up_reaches [OF a(1,2) assms(2,3)] step_down_reaches [OF a(1,2) assms(2,3)]
    by auto
  then obtain n where "a \<le> arc_bearing s b n" and "arc_bearing s b n \<le> a + 5"
    using arc_bearing_closed [OF assms(2,3)] by auto
  with a(3,4) have "magnitude_degrees (e - arc_bearing s b n) \<le> 15 / 2"
    unfolding magnitude_degrees_def by linarith
  then show ?thesis ..
qed

lemma upt_shift: "map f [1..<Suc (Suc n)] = f 1 # map (\<lambda>k. f (Suc k)) [1..<Suc n]"
proof -
  have "[1..<Suc (Suc n)] = 1 # map Suc [1..<Suc n]"
    by (simp add: upt_conv_Cons map_Suc_upt del: upt_Suc)
  then show ?thesis by (simp add: comp_def del: upt_Suc)
qed

text \<open>The loop, unrolled up to the first bearing within 7.5 degrees of the end.\<close>

lemma AddArc_loop_unrolled:
  assumes "magnitude_degrees (e - arc_bearing s b n) \<le> 15 / 2"
    and "\<forall>k<n. magnitude_degrees (e - arc_bearing s b k) > 15 / 2"
  shows "AddArc_loop g c r s e b pts
           = Some (pts @ map (\<lambda>k. FindLatitudeLongitude g c (arc_bearing s b k) r) [1..<Suc n])"
  using assms
proof (induction n arbitrary: b pts)
  case 0
  then have "\<not> magnitude_degrees (e - b) > 15 / 2"
    by (simp add: arc_bearing_0)
  then show ?case
    by (subst AddArc_loop.simps) simp
next
  case (Suc n)
  let ?b = "as_bearing (b + s)"
  from Suc.prems(2) have far: "magnitude_degrees (e - b) > 15 / 2"
    using arc_bearing_0 [of s b] by force
  have hit: "magnitude_degrees (e - arc_bearing s ?b n) \<le> 15 / 2"
    using Suc.prems(1) by (simp only: arc_bearing_shift)
  have before: "\<forall>k<n. magnitude_degrees (e - arc_bearing s ?b k) > 15 / 2"
    using Suc.prems(2) by (simp only: arc_bearing_shift) auto
  have "AddArc_loop g c r s e b pts
          = AddArc_loop g c r s e ?b (pts @ [FindLatitudeLongitude g c ?b r])"
    using far by (subst AddArc_loop.simps) simp
  also have "\<dots> = Some ((pts @ [FindLatitudeLongitude g c ?b r])
                @ map (\<lambda>k. FindLatitudeLongitude g c (arc_bearing s ?b k) r) [1..<Suc n])"
    using hit before by (rule Suc.IH)
  also have "(pts @ [FindLatitudeLongitude g c ?b r])
                @ map (\<lambda>k. FindLatitudeLongitude g c (arc_bearing s ?b k) r) [1..<Suc n]
             = pts @ map (\<lambda>k. FindLatitudeLongitude g c (arc_bearing s b k) r) [1..<Suc (Suc n)]"
    unfolding upt_shift [of "\<lambda>k. FindLatitudeLongitude g c (arc_bearing s b k) r" n]
    by (simp add: arc_bearing_shift arc_bearing_Suc arc_bearing_0 del: upt_Suc)
  finally show ?case .
qed

text \<open>
  Claim C7. For a rotation of +1 or -1 and bearings of the start and end point in
  [0, 360), as a bearing is, \<open>AddArc\<close> returns, and it appends to the boundary: the start
  point itself, then for k = 1 .. n the point at the bearing after k signed steps of
  5 degrees, at the radius of the start point, and last the end point itself. Here n is
  the first number of steps after which the bearing is within 7.5 degrees of the end
  bearing: stepping goes on only while the difference exceeds 7.5 degrees.
\<close>

theorem AddArc_vertices:
  assumes "Rotation t = 1 \<or> Rotation t = - 1"
    and "0 \<le> snd (distance_bearing g (Center t) Start)"
    and "snd (distance_bearing g (Center t) Start) < 360"
    and "0 \<le> Bearing g (Center t) End"
    and "Bearing g (Center t) End < 360"
  shows "\<exists>n.
      AddArc g Start End t =
        Inr (t\<lparr>points := points t @ [Start]
               @ map (\<lambda>k. FindLatitudeLongitude g (Center t)
                           (arc_bearing (of_int (Rotation t) * 5)
                              (snd (distance_bearing g (Center t) Start)) k)
                           (fst (distance_bearing g (Center t) Start)))
                   [1..<Suc n]
               @ [End]\<rparr>)
    \<and> (\<forall>k<n. magnitude_degrees
                (Bearing g (Center t) End
                   - arc_bearing (of_int (Rotation t) * 5)
                       (snd (distance_bearing g (Center t) Start)) k) > 15 / 2)
    \<and> magnitude_degrees
        (Bearing g (Center t) End
           - arc_bearing (of_int (Rotation t) * 5)
               (snd (distance_bearing g (Center t) Start)) n) \<le> 15 / 2"
proof -
  let ?s = "of_int (Rotation t) * 5 :: rat"
  let ?b = "snd (distance_bearing g (Center t) Start)"
  let ?r = "fst (distance_bearing g (Center t) Start)"
  let ?e = "Bearing g (Center t) End"
  let ?hit = "\<lambda>n. magnitude_degrees (?e - arc_bearing ?s ?b n) \<le> 15 / 2"
  have s: "?s = 5 \<or> ?s = - 5" using assms(1) by auto
  from arc_reaches_end [OF s assms(2,3,4,5)] have ex: "\<exists>n. ?hit n" .
  define n where "n = (LEAST n. ?hit n)"
  have hit: "?hit n"
    unfolding n_def using ex by (rule LeastI_ex)
  have before: "\<forall>k<n. magnitude_degrees (?e - arc_bearing ?s ?b k) > 15 / 2"
  proof (intro allI impI)
    fix k assume "k < n"
    then have "\<not> ?hit k" unfolding n_def by (rule not_less_Least)
    then show "magnitude_degrees (?e - arc_bearing ?s ?b k) > 15 / 2" by simp
  qed
  have loop: "AddArc_loop g (Center t) ?r ?s ?e ?b (points t @ [Start])
        = Some ((points t @ [Start])
            @ map (\<lambda>k. FindLatitudeLongitude g (Center t) (arc_bearing ?s ?b k) ?r) [1..<Suc n])"
    using hit before by (rule AddArc_loop_unrolled)
  have "AddArc g Start End t =
        Inr (t\<lparr>points := points t @ [Start]
               @ map (\<lambda>k. FindLatitudeLongitude g (Center t) (arc_bearing ?s ?b k) ?r) [1..<Suc n]
               @ [End]\<rparr>)"
    unfolding AddArc_def Let_def loop by (simp del: upt_Suc)
  with before hit show ?thesis by blast
qed


lemma as_bearing_below: "- 360 \<le> x \<Longrightarrow> x < 0 \<Longrightarrow> as_bearing x = x + 360"
proof -
  assume "- 360 \<le> x" and "x < 0"
  then have "\<lfloor>x / 360\<rfloor> = - 1"
    by (intro floor_unique) auto
  then show ?thesis by (simp add: as_bearing_def)
qed

lemma AddArc_example:
  "AddArc geodesy_chart \<lparr>Latitude = 1, Longitude = 0\<rparr> \<lparr>Latitude = 7, Longitude = 2\<rparr>
     TempAirspaceType_new =
   Inr (TempAirspaceType_new
     \<lparr>points := [\<lparr>Latitude = 1, Longitude = 0\<rparr>, \<lparr>Latitude = 17 / 18, Longitude = 1 / 18\<rparr>,
        \<lparr>Latitude = 8 / 9, Longitude = 1 / 9\<rparr>, \<lparr>Latitude = 5 / 6, Longitude = 1 / 6\<rparr>,
        \<lparr>Latitude = 7, Longitude = 2\<rparr>]\<rparr>)"
  by (simp add: AddArc_def AddArc_loop.simps geodesy_chart_def chart_bearing_def chart_cos_def
       TempAirspaceType_new_def reset_def magnitude_degrees_def as_bearing_id as_bearing_below
       GeoPoint_blank_def)

theorem AddArc_vertices_witness:
  "(Rotation TempAirspaceType_new = 1 \<or> Rotation TempAirspaceType_new = - 1)
   \<and> 0 \<le> snd (distance_bearing geodesy_chart (Center TempAirspaceType_new)
               \<lparr>Latitude = 1, Longitude = 0\<rparr>)
   \<and> snd (distance_bearing geodesy_chart (Center TempAirspaceType_new)
               \<lparr>Latitude = 1, Longitude = 0\<rparr>) < 360
   \<and> 0 \<le> Bearing geodesy_chart (Center TempAirspaceType_new) \<lparr>Latitude = 7, Longitude = 2\<rparr>
   \<and> Bearing geodesy_chart (Center TempAirspaceType_new) \<lparr>Latitude = 7, Longitude = 2\<rparr> < 360
   \<and> AddArc geodesy_chart \<lparr>Latitude = 1, Longitude = 0\<rparr> \<lparr>Latitude = 7, Longitude = 2\<rparr>
         TempAirspaceType_new =
       Inr (TempAirspaceType_new
         \<lparr>points := [\<lparr>Latitude = 1, Longitude = 0\<rparr>]
            @ map (\<lambda>k. FindLatitudeLongitude geodesy_chart \<lparr>Latitude = 0, Longitude = 0\<rparr>
                        (arc_bearing 5 0 k) 1) [1, 2, 3]
            @ [\<lparr>Latitude = 7, Longitude = 2\<rparr>]\<rparr>)
   \<and> arc_bearing 5 0 1 = 5 \<and> arc_bearing 5 0 2 = 10 \<and> arc_bearing 5 0 3 = 15
   \<and> magnitude_degrees (20 - arc_bearing 5 0 0) > 15 / 2
   \<and> magnitude_degrees (20 - arc_bearing 5 0 1) > 15 / 2
   \<and> magnitude_degrees (20 - arc_bearing 5 0 2) > 15 / 2
   \<and> magnitude_degrees (20 - arc_bearing 5 0 3) \<le> 15 / 2"
proof -
  have c: "Center TempAirspaceType_new = \<lparr>Latitude = 0, Longitude = 0\<rparr>"
    and p: "points TempAirspaceType_new = []"
    and h1: "Rotation TempAirspaceType_new = 1 \<or> Rotation TempAirspaceType_new = - 1"
    by (simp_all add: TempAirspaceType_new_def reset_def)
  have b: "distance_bearing geodesy_chart \<lparr>Latitude = 0, Longitude = 0\<rparr>
             \<lparr>Latitude = 1, Longitude = 0\<rparr> = (1, 0)"
    and e: "Bearing geodesy_chart \<lparr>Latitude = 0, Longitude = 0\<rparr>
             \<lparr>Latitude = 7, Longitude = 2\<rparr> = 20"
    by (simp_all add: geodesy_chart_def chart_bearing_def)
  have r: "Rotation TempAirspaceType_new = 1"
    by (simp add: TempAirspaceType_new_def reset_def)
  have h2: "0 \<le> snd (distance_bearing geodesy_chart (Center TempAirspaceType_new)
               \<lparr>Latitude = 1, Longitude = 0\<rparr>)"
    and h3: "snd (distance_bearing geodesy_chart (Center TempAirspaceType_new)
               \<lparr>Latitude = 1, Longitude = 0\<rparr>) < 360"
    and h4: "0 \<le> Bearing geodesy_chart (Center TempAirspaceType_new)
               \<lparr>Latitude = 7, Longitude = 2\<rparr>"
    and h5: "Bearing geodesy_chart (Center TempAirspaceType_new)
               \<lparr>Latitude = 7, Longitude = 2\<rparr> < 360"
    unfolding c b e by simp_all
  have a0: "arc_bearing 5 0 0 = 0" by (simp add: arc_bearing_0)
  have a1: "arc_bearing 5 0 1 = 5"
    using arc_bearing_closed [of 0 5 1] by (simp add: as_bearing_id)
  have a2: "arc_bearing 5 0 2 = 10"
    using arc_bearing_closed [of 0 5 2] by (simp add: as_bearing_id)
  have a3: "arc_bearing 5 0 3 = 15"
    using arc_bearing_closed [of 0 5 3] by (simp add: as_bearing_id)
  have far: "magnitude_degrees (20 - arc_bearing 5 0 0) > 15 / 2"
    "magnitude_degrees (20 - arc_bearing 5 0 1) > 15 / 2"
    "magnitude_degrees (20 - arc_bearing 5 0 2) > 15 / 2"
    and hit: "magnitude_degrees (20 - arc_bearing 5 0 3) \<le> 15 / 2"
    unfolding a0 a1 a2 a3 magnitude_degrees_def by simp_all
  from AddArc_vertices [OF h1 h2 h3 h4 h5]
  obtain n where run: "AddArc geodesy_chart \<lparr>Latitude = 1, Longitude = 0\<rparr>
        \<lparr>Latitude = 7, Longitude = 2\<rparr> TempAirspaceType_new =
       Inr (TempAirspaceType_new
         \<lparr>points := [\<lparr>Latitude = 1, Longitude = 0\<rparr>]
            @ map (\<lambda>k. FindLatitudeLongitude geodesy_chart \<lparr>Latitude = 0, Longitude = 0\<rparr>
                        (arc_bearing 5 0 k) 1) [1..<Suc n]
            @ [\<lparr>Latitude = 7, Longitude = 2\<rparr>]\<rparr>)"
    and before: "\<forall>k<n. magnitude_degrees (20 - arc_bearing 5 0 k) > 15 / 2"
    and stop: "magnitude_degrees (20 - arc_bearing 5 0 n) \<le> 15 / 2"
    unfolding c b e p r by (auto simp del: upt_Suc)
  have "\<not> 3 < n"
  proof
    assume "3 < n"
    with before have "magnitude_degrees (20 - arc_bearing 5 0 3) > 15 / 2" by blast
    with hit show False by simp
  qed
  moreover have "n \<noteq> 0"
  proof
    assume "n = 0"
    with stop far(1) show False by simp
  qed
  moreover have "n \<noteq> 1"
  proof
    assume "n = 1"
    with stop far(2) show False by simp
  qed
  moreover have "n \<noteq> 2"
  proof
    assume "n = 2"
    with stop far(3) show False by simp
  qed
  ultimately have n: "n = 3" by linarith
  have "[1..<Suc 3] = [1, 2, 3]" by (simp add: upt_rec)
  with run n have "AddArc geodesy_chart \<lparr>Latitude = 1, Longitude = 0\<rparr>
        \<lparr>Latitude = 7, Longitude = 2\<rparr> TempAirspaceType_new =
       Inr (TempAirspaceType_new
         \<lparr>points := [\<lparr>Latitude = 1, Longitude = 0\<rparr>]
            @ map (\<lambda>k. FindLatitudeLongitude geodesy_chart \<lparr>Latitude = 0, Longitude = 0\<rparr>
                        (arc_bearing 5 0 k) 1) [1, 2, 3]
            @ [\<lparr>Latitude = 7, Longitude = 2\<rparr>]\<rparr>)"
    by (simp only:)
  with h1 h2 h3 h4 h5 a1 a2 a3 far hit show ?thesis by blast
qed

end
